theory Spec2Isabelle
  imports Complex_Main
begin

section \<open>Data model\<close>

text \<open>
  The console is three React components that share state through props:
  the layout (\<^verbatim>\<open>SimTomLayoutInner\<close>), the control panel
  (\<^verbatim>\<open>LeftControlPanel\<close>) and the scout viewer (\<^verbatim>\<open>ScoutViewer\<close>).
  Every \<^verbatim>\<open>useState\<close> cell that the workflow gate or the planning geometry
  reads is a field of one record; a handler is a function from the record to
  the updated record. A JavaScript \<^verbatim>\<open>number\<close> is modelled as a real (no
  rounding error, no NaN, no infinities). An asynchronous collaborator call is
  modelled by its outcome, passed to the handler as an argument, and the
  handler runs to its end before the next event is taken.
\<close>

record FovBox =
  x_min :: real
  x_max :: real
  y_min :: real
  y_max :: real

record PlanningLines =
  startY :: real
  endY :: real
  fov :: FovBox

text \<open>\<^verbatim>\<open>dragStartRef.current\<close>: the pointer's \<^verbatim>\<open>clientY\<close> at pointer-down
  together with a copy of the planning values.\<close>

record DragStart = PlanningLines +
  y :: real

record ScoutSize =
  width :: real
  height :: real

record ScanState =
  isScanning :: bool
  currentSlice :: nat
  totalSlices :: nat

text \<open>The layout's \<^verbatim>\<open>planningData\<close>: every field may be undefined.\<close>

record PlanningData =
  z_pixel_start :: "real option"
  z_pixel_end :: "real option"
  scout_height_px :: "real option"
  fov_px :: "FovBox option"

datatype handle = Start | End | Fov | FovTop | FovBottom | FovLeft | FovRight

text \<open>What \<^verbatim>\<open>loadScout\<close> gets from the scout source: an image of some
  width and height, no response, or an exception with its message.\<close>

datatype scout_outcome = Loaded real real | NoResponse | Threw string

record MouseEvt =
  clientX :: real
  clientY :: real

text \<open>The container's bounding rectangle (\<^verbatim>\<open>getBoundingClientRect\<close>).\<close>

record Rect =
  rleft :: real
  rtop :: real
  rwidth :: real
  rheight :: real

record App =
  caseId :: string
  scoutRefreshToken :: nat
  isPlanningActive :: bool
  scanState :: ScanState
  planningData :: PlanningData
  scoutCompleted :: bool
  loading :: bool
  panelError :: "string option"
  planningCompleted :: bool
  scoutSize :: "ScoutSize option"
  viewerError :: "string option"
  planning :: PlanningLines
  dragging :: "handle option"
  dragStartRef :: DragStart

definition initialFov :: FovBox where
  "initialFov = \<lparr>x_min = 100, x_max = 300, y_min = 100, y_max = 300\<rparr>"

definition initialPlanning :: PlanningLines where
  "initialPlanning = \<lparr>startY = 100, endY = 400, fov = initialFov\<rparr>"

definition emptyPlanningData :: PlanningData where
  "emptyPlanningData =
     \<lparr>z_pixel_start = None, z_pixel_end = None, scout_height_px = None, fov_px = None\<rparr>"

definition idleScan :: ScanState where
  "idleScan = \<lparr>isScanning = False, currentSlice = 0, totalSlices = 0\<rparr>"

definition init :: App where
  "init =
     \<lparr>caseId = [], scoutRefreshToken = 0, isPlanningActive = False,
      scanState = idleScan, planningData = emptyPlanningData,
      scoutCompleted = False, loading = False, panelError = None,
      planningCompleted = False, scoutSize = None, viewerError = None,
      planning = initialPlanning, dragging = None,
      dragStartRef = \<lparr>startY = 0, endY = 0, fov = initialFov, y = 0\<rparr>\<rparr>"

section \<open>Scout viewer\<close>

text \<open>\<^verbatim>\<open>Math.round\<close>: the nearest integer, a half rounding up.\<close>

definition Math_round :: "real \<Rightarrow> real" where
  "Math_round x = of_int \<lfloor>x + 1 / 2\<rfloor>"

text \<open>The default geometry both branches of \<^verbatim>\<open>loadScout\<close> compute from the
  image's columns and rows.\<close>

definition defaultPlanning :: "real \<Rightarrow> real \<Rightarrow> PlanningLines" where
  "defaultPlanning cols rows =
     (let defaultStartY = Math_round (rows * 0.2);
          defaultEndY = Math_round (rows * 0.8);
          defaultFovMargin = Math_round (cols * 0.2)
      in \<lparr>startY = defaultStartY, endY = defaultEndY,
          fov = \<lparr>x_min = defaultFovMargin, x_max = cols - defaultFovMargin,
                 y_min = defaultStartY, y_max = defaultEndY\<rparr>\<rparr>)"

text \<open>The effect on \<^verbatim>\<open>[planning, scoutSize, onPlanningDataReady]\<close>: once a
  scout size is known, every new planning value is handed to the layout's
  \<^verbatim>\<open>setPlanningData\<close>.\<close>

definition notifyPlanningData :: "App \<Rightarrow> App" where
  "notifyPlanningData s =
     (case scoutSize s of
        None \<Rightarrow> s
      | Some sz \<Rightarrow>
          s\<lparr>planningData :=
              \<lparr>z_pixel_start = Some (startY (planning s)),
               z_pixel_end = Some (endY (planning s)),
               scout_height_px = Some (height sz),
               fov_px = Some (fov (planning s))\<rparr>\<rparr>)"

definition loadScout :: "scout_outcome \<Rightarrow> App \<Rightarrow> App" where
  "loadScout r s =
     (case r of
        Loaded cols rows \<Rightarrow>
          notifyPlanningData
            (s\<lparr>viewerError := None,
               scoutSize := Some \<lparr>width = cols, height = rows\<rparr>,
               planning := defaultPlanning cols rows\<rparr>)
      | NoResponse \<Rightarrow> s\<lparr>viewerError := Some ''Failed to load scout image''\<rparr>
      | Threw msg \<Rightarrow>
          s\<lparr>viewerError :=
              Some (if msg = [] then ''Failed to load scout image'' else msg)\<rparr>)"

text \<open>The effect on \<^verbatim>\<open>[refreshToken, caseId, mode, volume]\<close>, given the token
  and case identifier of the previous render: it reloads the scout when one of
  them changed, the token is positive and a case is selected.\<close>

definition refreshEffect :: "nat \<Rightarrow> string \<Rightarrow> scout_outcome \<Rightarrow> App \<Rightarrow> App" where
  "refreshEffect tok cid r s =
     (if scoutRefreshToken s = tok \<and> caseId s = cid then s
      else if 0 < scoutRefreshToken s \<and> caseId s \<noteq> [] then loadScout r s
      else s)"

text \<open>The two effects on \<^verbatim>\<open>[caseId]\<close>, given the case identifier of the
  previous render: the panel resets \<^verbatim>\<open>planningCompleted\<close>; the viewer clears
  its scout and planning state when the new identifier is empty.\<close>

definition caseIdEffects :: "string \<Rightarrow> App \<Rightarrow> App" where
  "caseIdEffects cid s =
     (if caseId s = cid then s
      else if caseId s = []
        then s\<lparr>planningCompleted := False, scoutSize := None, viewerError := None,
               planning := initialPlanning\<rparr>
        else s\<lparr>planningCompleted := False\<rparr>)"

definition handleMouseDown :: "MouseEvt \<Rightarrow> handle \<Rightarrow> App \<Rightarrow> App" where
  "handleMouseDown e target s =
     (if isPlanningActive s
      then s\<lparr>dragging := Some target,
             dragStartRef :=
               \<lparr>startY = startY (planning s), endY = endY (planning s),
                fov = fov (planning s), y = clientY e\<rparr>\<rparr>
      else s)"

text \<open>One branch of \<^verbatim>\<open>handleMouseMove\<close> per handle. The bounds of each clamp
  are read from the planning value of the current render.\<close>

definition movePlanning ::
  "handle \<Rightarrow> DragStart \<Rightarrow> ScoutSize \<Rightarrow> real \<Rightarrow> real \<Rightarrow> real \<Rightarrow> PlanningLines \<Rightarrow> PlanningLines"
where
  "movePlanning d ref sz deltaY deltaX currentY p =
     (case d of
        Start \<Rightarrow>
          (let newStartY = max 0 (min (startY ref + deltaY) (endY p - 20))
           in p\<lparr>startY := newStartY, fov := (fov p)\<lparr>y_min := newStartY\<rparr>\<rparr>)
      | End \<Rightarrow>
          (let newEndY = min (height sz) (max (endY ref + deltaY) (startY p + 20))
           in p\<lparr>endY := newEndY, fov := (fov p)\<lparr>y_max := newEndY\<rparr>\<rparr>)
      | Fov \<Rightarrow>
          (let fovWidth = x_max (fov ref) - x_min (fov ref);
               fovHeight = y_max (fov ref) - y_min (fov ref);
               newXMin = max 0 (min (deltaX - fovWidth / 2) (width sz - fovWidth));
               newYMin = max 0 (min (currentY - fovHeight / 2) (height sz - fovHeight))
           in p\<lparr>fov := \<lparr>x_min = newXMin, x_max = newXMin + fovWidth,
                        y_min = newYMin, y_max = newYMin + fovHeight\<rparr>\<rparr>)
      | FovLeft \<Rightarrow>
          (let newXMin = max 0 (min deltaX (x_max (fov p) - 20))
           in p\<lparr>fov := (fov p)\<lparr>x_min := newXMin\<rparr>\<rparr>)
      | FovRight \<Rightarrow>
          (let newXMax = min (width sz) (max deltaX (x_min (fov p) + 20))
           in p\<lparr>fov := (fov p)\<lparr>x_max := newXMax\<rparr>\<rparr>)
      | FovTop \<Rightarrow>
          (let newYMin = max 0 (min currentY (y_max (fov p) - 20))
           in p\<lparr>startY := newYMin, fov := (fov p)\<lparr>y_min := newYMin\<rparr>\<rparr>)
      | FovBottom \<Rightarrow>
          (let newYMax = min (height sz) (max currentY (y_min (fov p) + 20))
           in p\<lparr>endY := newYMax, fov := (fov p)\<lparr>y_max := newYMax\<rparr>\<rparr>))"

definition handleMouseMove :: "MouseEvt \<Rightarrow> Rect \<Rightarrow> App \<Rightarrow> App" where
  "handleMouseMove e rect s =
     (case dragging s of
        None \<Rightarrow> s
      | Some d \<Rightarrow>
          (case scoutSize s of
             None \<Rightarrow> s
           | Some sz \<Rightarrow>
               (let scaleY = height sz / rheight rect;
                    scaleX = width sz / rwidth rect;
                    deltaY = (clientY e - y (dragStartRef s)) * scaleY;
                    deltaX = (clientX e - rleft rect) * scaleX;
                    currentY = (clientY e - rtop rect) * scaleY
                in notifyPlanningData
                     (s\<lparr>planning :=
                          movePlanning d (dragStartRef s) sz deltaY deltaX currentY
                            (planning s)\<rparr>))))"

text \<open>\<^verbatim>\<open>handleMouseUp\<close> ends the drag; the save it starts changes no state of
  the console, whatever its outcome.\<close>

definition handleMouseUp :: "App \<Rightarrow> App" where
  "handleMouseUp s = (case dragging s of None \<Rightarrow> s | Some d \<Rightarrow> s\<lparr>dragging := None\<rparr>)"

section \<open>Layout and control panel\<close>

text \<open>The outcome of a collaborator call that returns nothing of interest
  (\<^verbatim>\<open>savePlanning\<close>, \<^verbatim>\<open>applyReconstruction\<close>, \<^verbatim>\<open>stopCt\<close>): it resolves, or it
  rejects with a message.\<close>

datatype outcome = Resolved | Rejected string

definition canStartPlanning :: "App \<Rightarrow> bool" where
  "canStartPlanning s = (scoutCompleted s \<and> \<not> isPlanningActive s \<and> \<not> planningCompleted s)"

definition canEndPlanning :: "App \<Rightarrow> bool" where
  "canEndPlanning s = isPlanningActive s"

definition canEditRecon :: "App \<Rightarrow> bool" where
  "canEditRecon s = (planningCompleted s \<and> \<not> isScanning (scanState s))"

definition canStartScan :: "App \<Rightarrow> bool" where
  "canStartScan s = (planningCompleted s \<and> \<not> isScanning (scanState s))"

text \<open>The test \<^verbatim>\<open>handleEndPlanning\<close> makes before it saves: both z-pixel
  bounds are defined.\<close>

definition wellFormed :: "PlanningData \<Rightarrow> bool" where
  "wellFormed d = (z_pixel_start d \<noteq> None \<and> z_pixel_end d \<noteq> None)"

definition handleScoutScan :: "nat \<Rightarrow> App \<Rightarrow> App" where
  "handleScoutScan now s = s\<lparr>scoutRefreshToken := now, scoutCompleted := True\<rparr>"

definition handlePlanningStart :: "App \<Rightarrow> App" where
  "handlePlanningStart s = s\<lparr>isPlanningActive := True\<rparr>"

definition handlePlanningEnd :: "nat \<Rightarrow> App \<Rightarrow> App" where
  "handlePlanningEnd now s = s\<lparr>isPlanningActive := False, scoutRefreshToken := now\<rparr>"

definition handleCaseChange :: "string \<Rightarrow> App \<Rightarrow> App" where
  "handleCaseChange newCaseId s =
     s\<lparr>caseId := newCaseId, scanState := idleScan, planningData := emptyPlanningData,
       isPlanningActive := False, scoutCompleted := False, scoutRefreshToken := 0\<rparr>"

definition handleEndPlanning :: "outcome \<Rightarrow> nat \<Rightarrow> App \<Rightarrow> App" where
  "handleEndPlanning saved now s =
     handlePlanningEnd now
       (if wellFormed (planningData s)
        then (case saved of
                Resolved \<Rightarrow> s\<lparr>planningCompleted := True, loading := False\<rparr>
              | Rejected msg \<Rightarrow>
                  s\<lparr>panelError := Some ''Failed to save planning'', loading := False\<rparr>)
        else s)"

definition startedScan :: ScanState where
  "startedScan = \<lparr>isScanning = True, currentSlice = 0, totalSlices = 0\<rparr>"

definition handleStartScan :: "outcome \<Rightarrow> App \<Rightarrow> App" where
  "handleStartScan applied s =
     (if caseId s \<noteq> []
      then (case applied of
              Resolved \<Rightarrow> s\<lparr>panelError := None, scanState := startedScan, loading := False\<rparr>
            | Rejected msg \<Rightarrow>
                s\<lparr>panelError := Some (if msg = [] then ''Failed to start scan'' else msg),
                  loading := False\<rparr>)
      else s\<lparr>panelError := None, scanState := startedScan, loading := False\<rparr>)"

definition handleStopScan :: "App \<Rightarrow> App" where
  "handleStopScan s =
     s\<lparr>panelError := None, scanState := (scanState s)\<lparr>isScanning := False\<rparr>,
       loading := False\<rparr>"

definition handleStopCt :: "outcome \<Rightarrow> App \<Rightarrow> App" where
  "handleStopCt stopped s =
     (case stopped of
        Resolved \<Rightarrow> s\<lparr>scanState := (scanState s)\<lparr>isScanning := False\<rparr>\<rparr>
      | Rejected msg \<Rightarrow>
          s\<lparr>panelError := Some (if msg = [] then ''Failed to stop CT'' else msg)\<rparr>)"

definition onScanComplete :: "App \<Rightarrow> App" where
  "onScanComplete s = s\<lparr>scanState := (scanState s)\<lparr>isScanning := False\<rparr>\<rparr>"

section \<open>Operator events\<close>

text \<open>
  An event is a click on a control or a pointer event on the scout viewer,
  with the outcome of the collaborator call the handler makes and, where the
  handler reads \<^verbatim>\<open>Date.now()\<close>, the value read. A button passes the click to
  its handler only while its \<^verbatim>\<open>disabled\<close> attribute is false; the drag handles
  exist only while planning is active and a scout is loaded. The effects run
  after the handler, against the values of the render before it. A case change
  sets the refresh token to 0, so the viewer's refresh effect, which needs a
  positive token, does nothing after it (lemma \<open>refreshEffect_after_case_change\<close>).
  Display-only state (image URL, z-range label, the viewer's loading flag, the
  patient form, the table position, the reconstruction fields) is left out.
\<close>

datatype event =
    CaseChange string
  | ScoutScan nat scout_outcome
  | StartPlanning
  | EndPlanning outcome nat scout_outcome
  | StartScan outcome
  | StopScan
  | StopCt outcome
  | ScanComplete
  | MouseDown handle MouseEvt
  | MouseMove MouseEvt Rect
  | MouseUp

fun step :: "event \<Rightarrow> App \<Rightarrow> App" where
  "step (CaseChange c) s = caseIdEffects (caseId s) (handleCaseChange c s)"
| "step (ScoutScan now r) s =
     (if \<not> loading s \<and> \<not> isScanning (scanState s)
      then refreshEffect (scoutRefreshToken s) (caseId s) r (handleScoutScan now s)
      else s)"
| "step StartPlanning s =
     (if canStartPlanning s \<and> \<not> loading s then handlePlanningStart s else s)"
| "step (EndPlanning saved now r) s =
     (if canEndPlanning s \<and> \<not> loading s
      then refreshEffect (scoutRefreshToken s) (caseId s) r (handleEndPlanning saved now s)
      else s)"
| "step (StartScan applied) s =
     (if canStartScan s \<and> \<not> loading s then handleStartScan applied s else s)"
| "step StopScan s =
     (if isScanning (scanState s) \<and> \<not> loading s then handleStopScan s else s)"
| "step (StopCt stopped) s = (if \<not> loading s then handleStopCt stopped s else s)"
| "step ScanComplete s = onScanComplete s"
| "step (MouseDown target e) s =
     (if isPlanningActive s \<and> scoutSize s \<noteq> None then handleMouseDown e target s else s)"
| "step (MouseMove e rect) s = handleMouseMove e rect s"
| "step MouseUp s = handleMouseUp s"

fun run :: "App \<Rightarrow> event list \<Rightarrow> App" where
  "run s [] = s"
| "run s (e # es) = run (step e s) es"

section \<open>Properties named by the specification\<close>

text \<open>The ordering the specification asks of the two lines inside a frame of
  the given height.\<close>

definition linesOrdered :: "real \<Rightarrow> PlanningLines \<Rightarrow> bool" where
  "linesOrdered frameHeight p =
     (0 \<le> startY p \<and> startY p \<le> endY p - 20 \<and> endY p - 20 \<le> frameHeight - 20)"

text \<open>The vertical extent of the FOV box equals the z-range.\<close>

definition fovMirrorsLines :: "PlanningLines \<Rightarrow> bool" where
  "fovMirrorsLines p = (y_min (fov p) = startY p \<and> y_max (fov p) = endY p)"

text \<open>A whole drag gesture on one handle: pointer-down, one pointer-move,
  pointer-up.\<close>

definition dragTo :: "handle \<Rightarrow> MouseEvt \<Rightarrow> MouseEvt \<Rightarrow> Rect \<Rightarrow> App \<Rightarrow> App" where
  "dragTo h down move rect s =
     handleMouseUp (handleMouseMove move rect (handleMouseDown down h s))"

text \<open>The candidate the specification describes for a dragged quantity: its
  value at pointer-down plus the pointer's displacement since then, scaled from
  display pixels to image pixels.\<close>

definition anchorPlusDelta :: "real \<Rightarrow> real \<Rightarrow> real \<Rightarrow> real \<Rightarrow> real" where
  "anchorPlusDelta anchor down move scale = anchor + (move - down) * scale"

text \<open>The pointer's absolute position inside the container, scaled from display
  pixels to image pixels.\<close>

definition pointerX :: "MouseEvt \<Rightarrow> Rect \<Rightarrow> ScoutSize \<Rightarrow> real" where
  "pointerX e rect sz = (clientX e - rleft rect) * (width sz / rwidth rect)"

definition pointerY :: "MouseEvt \<Rightarrow> Rect \<Rightarrow> ScoutSize \<Rightarrow> real" where
  "pointerY e rect sz = (clientY e - rtop rect) * (height sz / rheight rect)"

text \<open>The quantity a handle drags, taken from \<open>q\<close> and written into \<open>p\<close>:
  a line handle drags its line and the FOV edge tied to it, an edge handle its
  edge (and the line tied to a top or bottom edge), the body handle the whole
  box.\<close>

definition overwriteDragged :: "handle \<Rightarrow> PlanningLines \<Rightarrow> PlanningLines \<Rightarrow> PlanningLines" where
  "overwriteDragged d q p =
     (case d of
        Start \<Rightarrow> p\<lparr>startY := startY q, fov := (fov p)\<lparr>y_min := y_min (fov q)\<rparr>\<rparr>
      | End \<Rightarrow> p\<lparr>endY := endY q, fov := (fov p)\<lparr>y_max := y_max (fov q)\<rparr>\<rparr>
      | Fov \<Rightarrow> p\<lparr>fov := fov q\<rparr>
      | FovLeft \<Rightarrow> p\<lparr>fov := (fov p)\<lparr>x_min := x_min (fov q)\<rparr>\<rparr>
      | FovRight \<Rightarrow> p\<lparr>fov := (fov p)\<lparr>x_max := x_max (fov q)\<rparr>\<rparr>
      | FovTop \<Rightarrow> p\<lparr>startY := startY q, fov := (fov p)\<lparr>y_min := y_min (fov q)\<rparr>\<rparr>
      | FovBottom \<Rightarrow> p\<lparr>endY := endY q, fov := (fov p)\<lparr>y_max := y_max (fov q)\<rparr>\<rparr>)"

text \<open>Kinds of events, to speak about what a trace contains.\<close>

fun isEndPlanning :: "event \<Rightarrow> bool" where
  "isEndPlanning (EndPlanning saved now r) = True"
| "isEndPlanning e = False"

fun isCaseChange :: "event \<Rightarrow> bool" where
  "isCaseChange (CaseChange c) = True"
| "isCaseChange e = False"

fun isScoutScan :: "event \<Rightarrow> bool" where
  "isScoutScan (ScoutScan now r) = True"
| "isScoutScan e = False"

text \<open>Some End Planning click in the trace was made while planning was active
  and left \<open>planningCompleted\<close> false.\<close>

fun endedUncommitted :: "App \<Rightarrow> event list \<Rightarrow> bool" where
  "endedUncommitted s [] = False"
| "endedUncommitted s (e # es) =
     ((isEndPlanning e \<and> isPlanningActive s \<and> \<not> planningCompleted (step e s))
      \<or> endedUncommitted (step e s) es)"

text \<open>Some case change in the trace is followed, later, by a Scout Scan click.\<close>

fun caseThenScout :: "event list \<Rightarrow> bool" where
  "caseThenScout [] = False"
| "caseThenScout (e # es) = ((isCaseChange e \<and> list_ex isScoutScan es) \<or> caseThenScout es)"

section \<open>Sample sessions\<close>

definition frame800x1000 :: Rect where
  "frame800x1000 = \<lparr>rleft = 0, rtop = 0, rwidth = 800, rheight = 1000\<rparr>"

definition frame10x10 :: Rect where
  "frame10x10 = \<lparr>rleft = 0, rtop = 0, rwidth = 10, rheight = 10\<rparr>"

definition pointer :: "real \<Rightarrow> real \<Rightarrow> MouseEvt" where
  "pointer px py = \<lparr>clientX = px, clientY = py\<rparr>"

text \<open>Case A selected and an 800 by 1000 scout loaded.\<close>

definition scoutedA :: App where
  "scoutedA = run init [CaseChange ''A'', ScoutScan 1 (Loaded 800 1000)]"

text \<open>Case A selected, an 800 by 1000 scout loaded, planning started.\<close>

definition planningA :: App where
  "planningA = run init [CaseChange ''A'', ScoutScan 1 (Loaded 800 1000), StartPlanning]"

text \<open>The same with a scout of 10 by 10 pixels.\<close>

definition planningTiny :: App where
  "planningTiny = run init [CaseChange ''A'', ScoutScan 1 (Loaded 10 10), StartPlanning]"

text \<open>Planning for case A ended with a save that succeeded (the scout is
  reloaded by the refresh that ending the planning triggers).\<close>

definition plannedA :: App where
  "plannedA = step (EndPlanning Resolved 2 (Loaded 800 1000)) planningA"

text \<open>Planning for case A ended with a save that was rejected, and the scout
  reload got no response.\<close>

definition rejectedA :: App where
  "rejectedA = step (EndPlanning (Rejected ''offline'') 2 NoResponse) planningA"

text \<open>The scan for case A started.\<close>

definition scanningA :: App where
  "scanningA = step (StartScan Resolved) plannedA"

text \<open>Planning for case A with the start line dragged from 200 to 300.\<close>

definition adjustedA :: App where
  "adjustedA = dragTo Start (pointer 5 200) (pointer 5 300) frame800x1000 planningA"

lemma scoutedA_eval:
  "scoutedA =
     \<lparr>caseId = ''A'', scoutRefreshToken = 1, isPlanningActive = False,
      scanState = \<lparr>isScanning = False, currentSlice = 0, totalSlices = 0\<rparr>,
      planningData =
        \<lparr>z_pixel_start = Some 200, z_pixel_end = Some 800, scout_height_px = Some 1000,
         fov_px = Some \<lparr>x_min = 160, x_max = 640, y_min = 200, y_max = 800\<rparr>\<rparr>,
      scoutCompleted = True, loading = False, panelError = None,
      planningCompleted = False, scoutSize = Some \<lparr>width = 800, height = 1000\<rparr>,
      viewerError = None,
      planning = \<lparr>startY = 200, endY = 800,
                  fov = \<lparr>x_min = 160, x_max = 640, y_min = 200, y_max = 800\<rparr>\<rparr>,
      dragging = None,
      dragStartRef = \<lparr>startY = 0, endY = 0,
                      fov = \<lparr>x_min = 100, x_max = 300, y_min = 100, y_max = 300\<rparr>, y = 0\<rparr>\<rparr>"
  by (simp add: scoutedA_def init_def idleScan_def emptyPlanningData_def initialFov_def
        handleCaseChange_def caseIdEffects_def handleScoutScan_def refreshEffect_def
        loadScout_def notifyPlanningData_def defaultPlanning_def Math_round_def)

lemma planningA_eval:
  "planningA =
     \<lparr>caseId = ''A'', scoutRefreshToken = 1, isPlanningActive = True,
      scanState = \<lparr>isScanning = False, currentSlice = 0, totalSlices = 0\<rparr>,
      planningData =
        \<lparr>z_pixel_start = Some 200, z_pixel_end = Some 800, scout_height_px = Some 1000,
         fov_px = Some \<lparr>x_min = 160, x_max = 640, y_min = 200, y_max = 800\<rparr>\<rparr>,
      scoutCompleted = True, loading = False, panelError = None,
      planningCompleted = False, scoutSize = Some \<lparr>width = 800, height = 1000\<rparr>,
      viewerError = None,
      planning = \<lparr>startY = 200, endY = 800,
                  fov = \<lparr>x_min = 160, x_max = 640, y_min = 200, y_max = 800\<rparr>\<rparr>,
      dragging = None,
      dragStartRef = \<lparr>startY = 0, endY = 0,
                      fov = \<lparr>x_min = 100, x_max = 300, y_min = 100, y_max = 300\<rparr>, y = 0\<rparr>\<rparr>"
  by (simp add: planningA_def init_def idleScan_def emptyPlanningData_def initialFov_def
        handleCaseChange_def caseIdEffects_def handleScoutScan_def refreshEffect_def
        loadScout_def notifyPlanningData_def defaultPlanning_def Math_round_def
        canStartPlanning_def handlePlanningStart_def)

lemma planningTiny_eval:
  "planningTiny =
     \<lparr>caseId = ''A'', scoutRefreshToken = 1, isPlanningActive = True,
      scanState = \<lparr>isScanning = False, currentSlice = 0, totalSlices = 0\<rparr>,
      planningData =
        \<lparr>z_pixel_start = Some 2, z_pixel_end = Some 8, scout_height_px = Some 10,
         fov_px = Some \<lparr>x_min = 2, x_max = 8, y_min = 2, y_max = 8\<rparr>\<rparr>,
      scoutCompleted = True, loading = False, panelError = None,
      planningCompleted = False, scoutSize = Some \<lparr>width = 10, height = 10\<rparr>,
      viewerError = None,
      planning = \<lparr>startY = 2, endY = 8,
                  fov = \<lparr>x_min = 2, x_max = 8, y_min = 2, y_max = 8\<rparr>\<rparr>,
      dragging = None,
      dragStartRef = \<lparr>startY = 0, endY = 0,
                      fov = \<lparr>x_min = 100, x_max = 300, y_min = 100, y_max = 300\<rparr>, y = 0\<rparr>\<rparr>"
  by (simp add: planningTiny_def init_def idleScan_def emptyPlanningData_def initialFov_def
        handleCaseChange_def caseIdEffects_def handleScoutScan_def refreshEffect_def
        loadScout_def notifyPlanningData_def defaultPlanning_def Math_round_def
        canStartPlanning_def handlePlanningStart_def)

lemma plannedA_eval:
  "plannedA =
     \<lparr>caseId = ''A'', scoutRefreshToken = 2, isPlanningActive = False,
      scanState = \<lparr>isScanning = False, currentSlice = 0, totalSlices = 0\<rparr>,
      planningData =
        \<lparr>z_pixel_start = Some 200, z_pixel_end = Some 800, scout_height_px = Some 1000,
         fov_px = Some \<lparr>x_min = 160, x_max = 640, y_min = 200, y_max = 800\<rparr>\<rparr>,
      scoutCompleted = True, loading = False, panelError = None,
      planningCompleted = True, scoutSize = Some \<lparr>width = 800, height = 1000\<rparr>,
      viewerError = None,
      planning = \<lparr>startY = 200, endY = 800,
                  fov = \<lparr>x_min = 160, x_max = 640, y_min = 200, y_max = 800\<rparr>\<rparr>,
      dragging = None,
      dragStartRef = \<lparr>startY = 0, endY = 0,
                      fov = \<lparr>x_min = 100, x_max = 300, y_min = 100, y_max = 300\<rparr>, y = 0\<rparr>\<rparr>"
  by (simp add: plannedA_def planningA_eval canEndPlanning_def handleEndPlanning_def
        wellFormed_def handlePlanningEnd_def refreshEffect_def loadScout_def
        notifyPlanningData_def defaultPlanning_def Math_round_def)

lemma rejectedA_eval:
  "rejectedA =
     \<lparr>caseId = ''A'', scoutRefreshToken = 2, isPlanningActive = False,
      scanState = \<lparr>isScanning = False, currentSlice = 0, totalSlices = 0\<rparr>,
      planningData =
        \<lparr>z_pixel_start = Some 200, z_pixel_end = Some 800, scout_height_px = Some 1000,
         fov_px = Some \<lparr>x_min = 160, x_max = 640, y_min = 200, y_max = 800\<rparr>\<rparr>,
      scoutCompleted = True, loading = False, panelError = Some ''Failed to save planning'',
      planningCompleted = False, scoutSize = Some \<lparr>width = 800, height = 1000\<rparr>,
      viewerError = Some ''Failed to load scout image'',
      planning = \<lparr>startY = 200, endY = 800,
                  fov = \<lparr>x_min = 160, x_max = 640, y_min = 200, y_max = 800\<rparr>\<rparr>,
      dragging = None,
      dragStartRef = \<lparr>startY = 0, endY = 0,
                      fov = \<lparr>x_min = 100, x_max = 300, y_min = 100, y_max = 300\<rparr>, y = 0\<rparr>\<rparr>"
  by (simp add: rejectedA_def planningA_eval canEndPlanning_def handleEndPlanning_def
        wellFormed_def handlePlanningEnd_def refreshEffect_def loadScout_def)

lemma start_scoutedA: "step StartPlanning scoutedA = planningA"
  by (simp add: scoutedA_def planningA_def del: step.simps)


lemma scanningA_eval:
  "scanningA =
     \<lparr>caseId = ''A'', scoutRefreshToken = 2, isPlanningActive = False,
      scanState = \<lparr>isScanning = True, currentSlice = 0, totalSlices = 0\<rparr>,
      planningData =
        \<lparr>z_pixel_start = Some 200, z_pixel_end = Some 800, scout_height_px = Some 1000,
         fov_px = Some \<lparr>x_min = 160, x_max = 640, y_min = 200, y_max = 800\<rparr>\<rparr>,
      scoutCompleted = True, loading = False, panelError = None,
      planningCompleted = True, scoutSize = Some \<lparr>width = 800, height = 1000\<rparr>,
      viewerError = None,
      planning = \<lparr>startY = 200, endY = 800,
                  fov = \<lparr>x_min = 160, x_max = 640, y_min = 200, y_max = 800\<rparr>\<rparr>,
      dragging = None,
      dragStartRef = \<lparr>startY = 0, endY = 0,
                      fov = \<lparr>x_min = 100, x_max = 300, y_min = 100, y_max = 300\<rparr>, y = 0\<rparr>\<rparr>"
  by (simp add: scanningA_def plannedA_eval canStartScan_def handleStartScan_def
        startedScan_def)

lemmas drag_defs =
  dragTo_def handleMouseDown_def handleMouseMove_def handleMouseUp_def movePlanning_def
  notifyPlanningData_def frame800x1000_def frame10x10_def pointer_def

lemma adjustedA_eval:
  "adjustedA =
     \<lparr>caseId = ''A'', scoutRefreshToken = 1, isPlanningActive = True,
      scanState = \<lparr>isScanning = False, currentSlice = 0, totalSlices = 0\<rparr>,
      planningData =
        \<lparr>z_pixel_start = Some 300, z_pixel_end = Some 800, scout_height_px = Some 1000,
         fov_px = Some \<lparr>x_min = 160, x_max = 640, y_min = 300, y_max = 800\<rparr>\<rparr>,
      scoutCompleted = True, loading = False, panelError = None,
      planningCompleted = False, scoutSize = Some \<lparr>width = 800, height = 1000\<rparr>,
      viewerError = None,
      planning = \<lparr>startY = 300, endY = 800,
                  fov = \<lparr>x_min = 160, x_max = 640, y_min = 300, y_max = 800\<rparr>\<rparr>,
      dragging = None,
      dragStartRef = \<lparr>startY = 200, endY = 800,
                      fov = \<lparr>x_min = 160, x_max = 640, y_min = 200, y_max = 800\<rparr>, y = 200\<rparr>\<rparr>"
  by (simp add: adjustedA_def planningA_eval drag_defs)

section \<open>Planning geometry\<close>

lemma planning_notifyPlanningData [simp]: "planning (notifyPlanningData s) = planning s"
  by (simp add: notifyPlanningData_def split: option.split)

lemma planning_handleMouseMove:
  "dragging s = Some d \<Longrightarrow> scoutSize s = Some sz \<Longrightarrow>
   planning (handleMouseMove e rect s) =
     movePlanning d (dragStartRef s) sz
       ((clientY e - y (dragStartRef s)) * (height sz / rheight rect))
       ((clientX e - rleft rect) * (width sz / rwidth rect))
       ((clientY e - rtop rect) * (height sz / rheight rect))
       (planning s)"
  by (simp add: handleMouseMove_def Let_def)

text \<open>
  C4 (as amended). The clamp of a start-line move is bounded by the current end
  line, and the clamp of an end-line move by the current start line. A
  start-line move yields \<open>0 \<le> startY \<le> endY - 20 \<le> frameHeight - 20\<close> when the
  current end line satisfies \<open>20 \<le> endY \<le> frameHeight\<close>; an end-line move
  yields it when the current start line satisfies
  \<open>0 \<le> startY \<le> frameHeight - 20\<close>.
\<close>

theorem line_move_keeps_order:
  assumes "scoutSize s = Some sz"
  shows "(dragging s = Some Start \<and> 20 \<le> endY (planning s) \<and> endY (planning s) \<le> height sz
            \<longrightarrow> linesOrdered (height sz) (planning (handleMouseMove e rect s)))
       \<and> (dragging s = Some End \<and> 0 \<le> startY (planning s)
              \<and> startY (planning s) \<le> height sz - 20
            \<longrightarrow> linesOrdered (height sz) (planning (handleMouseMove e rect s)))"
  using assms
  by (auto simp: planning_handleMouseMove movePlanning_def linesOrdered_def Let_def)

theorem line_move_keeps_order_witness:
  "scoutSize (handleMouseDown (pointer 5 200) Start planningA) = Some \<lparr>width = 800, height = 1000\<rparr>
   \<and> dragging (handleMouseDown (pointer 5 200) Start planningA) = Some Start
   \<and> 20 \<le> endY (planning (handleMouseDown (pointer 5 200) Start planningA))
   \<and> endY (planning (handleMouseDown (pointer 5 200) Start planningA)) \<le> 1000
   \<and> linesOrdered 1000
       (planning (handleMouseMove (pointer 5 950) frame800x1000
          (handleMouseDown (pointer 5 200) Start planningA)))
   \<and> scoutSize (handleMouseDown (pointer 5 800) End planningA) = Some \<lparr>width = 800, height = 1000\<rparr>
   \<and> dragging (handleMouseDown (pointer 5 800) End planningA) = Some End
   \<and> 0 \<le> startY (planning (handleMouseDown (pointer 5 800) End planningA))
   \<and> startY (planning (handleMouseDown (pointer 5 800) End planningA)) \<le> 1000 - 20
   \<and> linesOrdered 1000
       (planning (handleMouseMove (pointer 5 100) frame800x1000
          (handleMouseDown (pointer 5 800) End planningA)))"
  using
    line_move_keeps_order
      [of "handleMouseDown (pointer 5 200) Start planningA" "\<lparr>width = 800, height = 1000\<rparr>"
          "pointer 5 950" frame800x1000]
    line_move_keeps_order
      [of "handleMouseDown (pointer 5 800) End planningA" "\<lparr>width = 800, height = 1000\<rparr>"
          "pointer 5 100" frame800x1000]
  by (simp add: planningA_eval handleMouseDown_def)

text \<open>C4 as stated fails: a scout of 10 by 10 pixels gets the default lines
  2 and 8, and a start-line move then yields \<open>startY = 0\<close>, above
  \<open>endY - 20 = -12\<close>.\<close>

theorem line_move_keeps_order_counterexample:
  "\<not> linesOrdered 10
       (planning (dragTo Start (pointer 5 2) (pointer 5 3) frame10x10 planningTiny))"
  by (simp add: planningTiny_eval drag_defs linesOrdered_def)

lemma planning_loadScout_Loaded:
  "planning (loadScout (Loaded cols rows) s) = defaultPlanning cols rows"
  by (simp add: loadScout_def)

lemma planning_handleMouseUp [simp]: "planning (handleMouseUp s) = planning s"
  by (simp add: handleMouseUp_def split: option.split)

lemma planning_dragTo:
  "isPlanningActive s \<Longrightarrow> scoutSize s = Some sz \<Longrightarrow>
   planning (dragTo h down move rect s) =
     movePlanning h
       \<lparr>startY = startY (planning s), endY = endY (planning s),
        fov = fov (planning s), y = clientY down\<rparr> sz
       ((clientY move - clientY down) * (height sz / rheight rect))
       ((clientX move - rleft rect) * (width sz / rwidth rect))
       ((clientY move - rtop rect) * (height sz / rheight rect))
       (planning s)"
  by (simp add: dragTo_def planning_handleMouseMove handleMouseDown_def)

lemma planningA_facts:
  "isPlanningActive planningA"
  "scoutSize planningA = Some \<lparr>width = 800, height = 1000\<rparr>"
  "planning planningA = \<lparr>startY = 200, endY = 800,
                  fov = \<lparr>x_min = 160, x_max = 640, y_min = 200, y_max = 800\<rparr>\<rparr>"
  by (simp_all add: planningA_eval)

lemmas planning_dragTo_A = planning_dragTo [OF planningA_facts(1,2)]

lemma down_planningA:
  "handleMouseDown e h planningA =
     planningA\<lparr>dragging := Some h,
               dragStartRef :=
                 \<lparr>startY = 200, endY = 800,
                  fov = \<lparr>x_min = 160, x_max = 640, y_min = 200, y_max = 800\<rparr>,
                  y = clientY e\<rparr>\<rparr>"
  by (simp add: handleMouseDown_def planningA_facts)

lemma gate_dragTo [simp]:
  "isPlanningActive (dragTo h down move rect s) = isPlanningActive s"
  "scoutSize (dragTo h down move rect s) = scoutSize s"
  by (simp_all add: dragTo_def handleMouseUp_def handleMouseMove_def handleMouseDown_def
        notifyPlanningData_def Let_def split: option.split)

text \<open>
  C5. A scout of 800 by 1000 pixels resets the geometry to \<open>startY = 200\<close>,
  \<open>endY = 800\<close> and the FOV box 160..640 by 200..800. In that state, a
  pointer-move on the end line whose raw value (the end line at pointer-down
  plus the scaled displacement) is 190 leaves the end line at 220, twenty pixels
  below the start line.
\<close>

theorem default_reset_and_end_drag:
  assumes "scoutSize s = Some \<lparr>width = 800, height = 1000\<rparr>"
    and "planning s = planning (loadScout (Loaded 800 1000) s0)"
    and "dragging s = Some End"
    and "anchorPlusDelta (endY (dragStartRef s)) (y (dragStartRef s)) (clientY e)
           (1000 / rheight rect) = 190"
  shows "planning (loadScout (Loaded 800 1000) s0) =
           \<lparr>startY = 200, endY = 800,
            fov = \<lparr>x_min = 160, x_max = 640, y_min = 200, y_max = 800\<rparr>\<rparr>
       \<and> endY (planning (handleMouseMove e rect s)) = 220"
proof -
  have d: "planning (loadScout (Loaded 800 1000) s0) =
           \<lparr>startY = 200, endY = 800,
            fov = \<lparr>x_min = 160, x_max = 640, y_min = 200, y_max = 800\<rparr>\<rparr>"
    by (simp add: planning_loadScout_Loaded defaultPlanning_def Math_round_def)
  have c: "endY (dragStartRef s) + (clientY e - y (dragStartRef s)) * (1000 / rheight rect) = 190"
    using assms(4) by (simp add: anchorPlusDelta_def)
  have "endY (planning (handleMouseMove e rect s)) = 220"
    using assms(1,3) c assms(2)[unfolded d]
    by (simp add: planning_handleMouseMove movePlanning_def Let_def)
  with d show ?thesis by simp
qed

theorem default_reset_and_end_drag_witness:
  "scoutSize (handleMouseDown (pointer 5 800) End planningA)
     = Some \<lparr>width = 800, height = 1000\<rparr>
   \<and> planning (handleMouseDown (pointer 5 800) End planningA)
     = planning (loadScout (Loaded 800 1000) init)
   \<and> dragging (handleMouseDown (pointer 5 800) End planningA) = Some End
   \<and> anchorPlusDelta (endY (dragStartRef (handleMouseDown (pointer 5 800) End planningA)))
        (y (dragStartRef (handleMouseDown (pointer 5 800) End planningA)))
        (clientY (pointer 5 190)) (1000 / rheight frame800x1000) = 190
   \<and> endY (planning (handleMouseMove (pointer 5 190) frame800x1000
         (handleMouseDown (pointer 5 800) End planningA))) = 220"
  using default_reset_and_end_drag
      [of "handleMouseDown (pointer 5 800) End planningA" init "pointer 5 190" frame800x1000]
  by (simp add: planningA_eval handleMouseDown_def anchorPlusDelta_def pointer_def
        frame800x1000_def planning_loadScout_Loaded defaultPlanning_def Math_round_def)

text \<open>
  C6 (as amended). A start-line drag and an end-line drag give the same lines
  and FOV box in either order when neither raw value is clamped against the
  other line in either order: with \<open>a\<close> the raw start value, \<open>b\<close> the raw end
  value and \<open>startY\<close>, \<open>endY\<close> the lines before both drags,
  \<open>a \<le> endY - 20\<close>, \<open>startY + 20 \<le> b\<close> and
  \<open>max 0 a + 20 \<le> min frameHeight b\<close>. Both orders then end with
  \<open>startY = max 0 a\<close> and \<open>endY = min frameHeight b\<close>; the clamps at the top and
  at the bottom of the frame do not disturb the order.
\<close>

theorem line_moves_commute:
  assumes "isPlanningActive s" and "scoutSize s = Some sz"
    and "a = anchorPlusDelta (startY (planning s)) (clientY d1) (clientY m1)
               (height sz / rheight rect)"
    and "b = anchorPlusDelta (endY (planning s)) (clientY d2) (clientY m2)
               (height sz / rheight rect)"
    and "a \<le> endY (planning s) - 20"
    and "startY (planning s) + 20 \<le> b"
    and "max 0 a + 20 \<le> min (height sz) b"
  shows "planning (dragTo End d2 m2 rect (dragTo Start d1 m1 rect s))
           = planning (dragTo Start d1 m1 rect (dragTo End d2 m2 rect s))
       \<and> planning (dragTo End d2 m2 rect (dragTo Start d1 m1 rect s))
           = (planning s)\<lparr>startY := max 0 a, endY := min (height sz) b,
                           fov := (fov (planning s))\<lparr>y_min := max 0 a,
                                                     y_max := min (height sz) b\<rparr>\<rparr>"
proof -
  let ?p = "planning s"
  define dy1 where "dy1 = (clientY m1 - clientY d1) * (height sz / rheight rect)"
  define dy2 where "dy2 = (clientY m2 - clientY d2) * (height sz / rheight rect)"
  have a': "startY ?p + dy1 = a" and b': "endY ?p + dy2 = b"
    using assms(3,4) by (simp_all only: anchorPlusDelta_def dy1_def dy2_def)
  have d1: "isPlanningActive t \<Longrightarrow> scoutSize t = Some sz \<Longrightarrow>
      planning (dragTo Start d1 m1 rect t)
        = (planning t)\<lparr>startY := max 0 (min (startY (planning t) + dy1) (endY (planning t) - 20)),
             fov := (fov (planning t))
               \<lparr>y_min := max 0 (min (startY (planning t) + dy1) (endY (planning t) - 20))\<rparr>\<rparr>"
    for t
    by (simp only: planning_dragTo dy1_def [symmetric])
       (simp add: movePlanning_def Let_def)
  have d2: "isPlanningActive t \<Longrightarrow> scoutSize t = Some sz \<Longrightarrow>
      planning (dragTo End d2 m2 rect t)
        = (planning t)\<lparr>endY := min (height sz) (max (endY (planning t) + dy2) (startY (planning t) + 20)),
             fov := (fov (planning t))
               \<lparr>y_max := min (height sz) (max (endY (planning t) + dy2) (startY (planning t) + 20))\<rparr>\<rparr>"
    for t
    by (simp only: planning_dragTo dy2_def [symmetric])
       (simp add: movePlanning_def Let_def)
  have s1: "planning (dragTo Start d1 m1 rect s)
      = ?p\<lparr>startY := max 0 a, fov := (fov ?p)\<lparr>y_min := max 0 a\<rparr>\<rparr>"
    using assms(5) by (simp add: d1 [OF assms(1,2)] a')
  have e1: "planning (dragTo End d2 m2 rect s)
      = ?p\<lparr>endY := min (height sz) b, fov := (fov ?p)\<lparr>y_max := min (height sz) b\<rparr>\<rparr>"
    using assms(6) by (simp add: d2 [OF assms(1,2)] b')
  have x: "max b (max 0 a + 20) = b" "min a (min (height sz) b - 20) = a"
    using assms(7) by (auto simp: max_def min_def split: if_splits)
  have g1: "isPlanningActive (dragTo Start d1 m1 rect s)"
    "scoutSize (dragTo Start d1 m1 rect s) = Some sz"
    and g2: "isPlanningActive (dragTo End d2 m2 rect s)"
    "scoutSize (dragTo End d2 m2 rect s) = Some sz"
    using assms(1,2) by simp_all
  have o1: "planning (dragTo End d2 m2 rect (dragTo Start d1 m1 rect s))
      = ?p\<lparr>startY := max 0 a, endY := min (height sz) b,
           fov := (fov ?p)\<lparr>y_min := max 0 a, y_max := min (height sz) b\<rparr>\<rparr>"
    by (simp add: d2 [OF g1] s1 b' x)
  have o2: "planning (dragTo Start d1 m1 rect (dragTo End d2 m2 rect s))
      = ?p\<lparr>startY := max 0 a, endY := min (height sz) b,
           fov := (fov ?p)\<lparr>y_min := max 0 a, y_max := min (height sz) b\<rparr>\<rparr>"
    by (simp add: d1 [OF g2] e1 a' x)
  from o1 o2 show ?thesis by simp
qed

theorem line_moves_commute_witness:
  "isPlanningActive planningA
   \<and> scoutSize planningA = Some \<lparr>width = 800, height = 1000\<rparr>
   \<and> (- 50::real) = anchorPlusDelta (startY (planning planningA)) (clientY (pointer 5 200))
               (clientY (pointer 5 (- 50))) (height \<lparr>width = 800, height = 1000\<rparr> / rheight frame800x1000)
   \<and> (1100::real) = anchorPlusDelta (endY (planning planningA)) (clientY (pointer 5 800))
               (clientY (pointer 5 1100)) (height \<lparr>width = 800, height = 1000\<rparr> / rheight frame800x1000)
   \<and> - 50 \<le> endY (planning planningA) - 20
   \<and> startY (planning planningA) + 20 \<le> 1100
   \<and> max 0 (- 50) + 20 \<le> min (height \<lparr>width = 800, height = 1000\<rparr>) (1100::real)
   \<and> planning (dragTo End (pointer 5 800) (pointer 5 1100) frame800x1000
                (dragTo Start (pointer 5 200) (pointer 5 (- 50)) frame800x1000 planningA))
       = planning (dragTo Start (pointer 5 200) (pointer 5 (- 50)) frame800x1000
                    (dragTo End (pointer 5 800) (pointer 5 1100) frame800x1000 planningA))
   \<and> planning (dragTo End (pointer 5 800) (pointer 5 1100) frame800x1000
                (dragTo Start (pointer 5 200) (pointer 5 (- 50)) frame800x1000 planningA))
       = \<lparr>startY = 0, endY = 1000,
          fov = \<lparr>x_min = 160, x_max = 640, y_min = 0, y_max = 1000\<rparr>\<rparr>"
  using line_moves_commute
      [of planningA "\<lparr>width = 800, height = 1000\<rparr>" "- 50" "pointer 5 200" "pointer 5 (- 50)"
          frame800x1000 1100 "pointer 5 800" "pointer 5 1100"]
  by (auto simp: planningA_facts anchorPlusDelta_def pointer_def frame800x1000_def)

text \<open>C6 as stated fails: from the default lines 200 and 800, a start-line drag
  with raw value 900 and an end-line drag with raw value 100 end at lines
  780 and 800 in one order and at 200 and 220 in the other.\<close>

theorem line_moves_commute_counterexample:
  "planning (dragTo End (pointer 5 800) (pointer 5 100) frame800x1000
              (dragTo Start (pointer 5 200) (pointer 5 900) frame800x1000 planningA))
   \<noteq> planning (dragTo Start (pointer 5 200) (pointer 5 900) frame800x1000
                (dragTo End (pointer 5 800) (pointer 5 100) frame800x1000 planningA))"
  by (simp add: planning_dragTo [where sz = "\<lparr>width = 800, height = 1000\<rparr>"]
        planning_dragTo_A planningA_facts movePlanning_def pointer_def frame800x1000_def)

text \<open>
  C8 (as amended). A line move or an FOV edge resize, applied to a state in
  which the FOV's vertical extent equals the z-range, gives such a state again.
  A move of the FOV box as a unit leaves both lines where they are and gives the
  box the height it had at pointer-down.
\<close>

theorem fov_extent_after_mutation:
  assumes "dragging s = Some d" and "scoutSize s = Some sz"
  shows "(d \<noteq> Fov \<and> fovMirrorsLines (planning s)
            \<longrightarrow> fovMirrorsLines (planning (handleMouseMove e rect s)))
       \<and> (d = Fov \<longrightarrow>
            startY (planning (handleMouseMove e rect s)) = startY (planning s)
          \<and> endY (planning (handleMouseMove e rect s)) = endY (planning s)
          \<and> y_max (fov (planning (handleMouseMove e rect s)))
              - y_min (fov (planning (handleMouseMove e rect s)))
            = y_max (fov (dragStartRef s)) - y_min (fov (dragStartRef s)))"
  using assms
  by (cases d)
     (simp_all add: planning_handleMouseMove movePlanning_def fovMirrorsLines_def Let_def)

theorem fov_extent_after_mutation_witness:
  "dragging (handleMouseDown (pointer 400 200) FovTop planningA) = Some FovTop
   \<and> scoutSize (handleMouseDown (pointer 400 200) FovTop planningA)
       = Some \<lparr>width = 800, height = 1000\<rparr>
   \<and> FovTop \<noteq> Fov
   \<and> fovMirrorsLines (planning (handleMouseDown (pointer 400 200) FovTop planningA))
   \<and> fovMirrorsLines (planning (handleMouseMove (pointer 400 350) frame800x1000
        (handleMouseDown (pointer 400 200) FovTop planningA)))
   \<and> dragging (handleMouseDown (pointer 400 500) Fov planningA) = Some Fov
   \<and> scoutSize (handleMouseDown (pointer 400 500) Fov planningA)
       = Some \<lparr>width = 800, height = 1000\<rparr>
   \<and> startY (planning (handleMouseMove (pointer 400 300) frame800x1000
        (handleMouseDown (pointer 400 500) Fov planningA))) = 200
   \<and> endY (planning (handleMouseMove (pointer 400 300) frame800x1000
        (handleMouseDown (pointer 400 500) Fov planningA))) = 800
   \<and> y_max (fov (planning (handleMouseMove (pointer 400 300) frame800x1000
        (handleMouseDown (pointer 400 500) Fov planningA))))
     - y_min (fov (planning (handleMouseMove (pointer 400 300) frame800x1000
        (handleMouseDown (pointer 400 500) Fov planningA)))) = 600"
  using
    fov_extent_after_mutation
      [of "handleMouseDown (pointer 400 200) FovTop planningA" FovTop
          "\<lparr>width = 800, height = 1000\<rparr>" "pointer 400 350" frame800x1000]
    fov_extent_after_mutation
      [of "handleMouseDown (pointer 400 500) Fov planningA" Fov
          "\<lparr>width = 800, height = 1000\<rparr>" "pointer 400 300" frame800x1000]
  by (simp add: planningA_eval handleMouseDown_def fovMirrorsLines_def)

text \<open>C8 as stated fails for the move of the FOV box: with the pointer at
  image row 300 the box of height 600 is centred there and clamped to rows
  0..600, while the lines stay at 200 and 800.\<close>

theorem fov_extent_after_mutation_counterexample:
  "\<not> fovMirrorsLines
       (planning (dragTo Fov (pointer 400 500) (pointer 400 300) frame800x1000 planningA))"
  by (simp add: planning_dragTo_A planningA_facts(3) movePlanning_def pointer_def
        frame800x1000_def fovMirrorsLines_def)

section \<open>Workflow gate\<close>

text \<open>What each handler and each event does to the facts the gate reads.\<close>

lemma gate_notifyPlanningData [simp]:
  "caseId (notifyPlanningData s) = caseId s"
  "scoutCompleted (notifyPlanningData s) = scoutCompleted s"
  "isPlanningActive (notifyPlanningData s) = isPlanningActive s"
  "planningCompleted (notifyPlanningData s) = planningCompleted s"
  "scanState (notifyPlanningData s) = scanState s"
  "loading (notifyPlanningData s) = loading s"
  by (simp_all add: notifyPlanningData_def split: option.split)

lemma gate_loadScout [simp]:
  "caseId (loadScout r s) = caseId s"
  "scoutCompleted (loadScout r s) = scoutCompleted s"
  "isPlanningActive (loadScout r s) = isPlanningActive s"
  "planningCompleted (loadScout r s) = planningCompleted s"
  "scanState (loadScout r s) = scanState s"
  "loading (loadScout r s) = loading s"
  by (simp_all add: loadScout_def split: scout_outcome.split)

lemma gate_refreshEffect [simp]:
  "caseId (refreshEffect tok cid r s) = caseId s"
  "scoutCompleted (refreshEffect tok cid r s) = scoutCompleted s"
  "isPlanningActive (refreshEffect tok cid r s) = isPlanningActive s"
  "planningCompleted (refreshEffect tok cid r s) = planningCompleted s"
  "scanState (refreshEffect tok cid r s) = scanState s"
  "loading (refreshEffect tok cid r s) = loading s"
  by (simp_all add: refreshEffect_def)

lemma gate_handleMouseMove [simp]:
  "caseId (handleMouseMove e rect s) = caseId s"
  "scoutCompleted (handleMouseMove e rect s) = scoutCompleted s"
  "isPlanningActive (handleMouseMove e rect s) = isPlanningActive s"
  "planningCompleted (handleMouseMove e rect s) = planningCompleted s"
  "scanState (handleMouseMove e rect s) = scanState s"
  "loading (handleMouseMove e rect s) = loading s"
  by (simp_all add: handleMouseMove_def Let_def split: option.split)

lemma gate_handleMouseDown [simp]:
  "caseId (handleMouseDown e h s) = caseId s"
  "scoutCompleted (handleMouseDown e h s) = scoutCompleted s"
  "isPlanningActive (handleMouseDown e h s) = isPlanningActive s"
  "planningCompleted (handleMouseDown e h s) = planningCompleted s"
  "scanState (handleMouseDown e h s) = scanState s"
  "loading (handleMouseDown e h s) = loading s"
  by (simp_all add: handleMouseDown_def)

lemma gate_handleMouseUp [simp]:
  "caseId (handleMouseUp s) = caseId s"
  "scoutCompleted (handleMouseUp s) = scoutCompleted s"
  "isPlanningActive (handleMouseUp s) = isPlanningActive s"
  "planningCompleted (handleMouseUp s) = planningCompleted s"
  "scanState (handleMouseUp s) = scanState s"
  "loading (handleMouseUp s) = loading s"
  by (simp_all add: handleMouseUp_def split: option.split)

lemmas handler_defs =
  handleCaseChange_def caseIdEffects_def handleScoutScan_def handlePlanningStart_def
  handlePlanningEnd_def handleEndPlanning_def handleStartScan_def handleStopScan_def
  handleStopCt_def onScanComplete_def idleScan_def startedScan_def

lemma loading_step: "\<not> loading s \<Longrightarrow> \<not> loading (step e s)"
  by (cases e) (simp_all add: handler_defs split: outcome.split)

lemma planningCompleted_step:
  "planningCompleted (step e s) =
     (case e of
        CaseChange c \<Rightarrow> planningCompleted s \<and> c = caseId s
      | EndPlanning saved now r \<Rightarrow>
          planningCompleted s
          \<or> (isPlanningActive s \<and> \<not> loading s \<and> saved = Resolved \<and> wellFormed (planningData s))
      | _ \<Rightarrow> planningCompleted s)"
  by (cases e) (auto simp: handler_defs canEndPlanning_def split: outcome.split)

lemma scoutCompleted_step:
  "scoutCompleted (step e s) =
     (case e of
        CaseChange c \<Rightarrow> False
      | ScoutScan now r \<Rightarrow> scoutCompleted s \<or> (\<not> loading s \<and> \<not> isScanning (scanState s))
      | _ \<Rightarrow> scoutCompleted s)"
  by (cases e) (auto simp: handler_defs split: outcome.split)

lemma isPlanningActive_step:
  "isPlanningActive (step e s) =
     (case e of
        CaseChange c \<Rightarrow> False
      | StartPlanning \<Rightarrow> isPlanningActive s \<or> (canStartPlanning s \<and> \<not> loading s)
      | EndPlanning saved now r \<Rightarrow> isPlanningActive s \<and> loading s
      | _ \<Rightarrow> isPlanningActive s)"
  by (cases e) (auto simp: handler_defs canEndPlanning_def split: outcome.split)

lemma isScanning_step:
  "isScanning (scanState (step e s)) =
     (case e of
        CaseChange c \<Rightarrow> False
      | StartScan applied \<Rightarrow>
          isScanning (scanState s)
          \<or> (canStartScan s \<and> \<not> loading s \<and> (caseId s = [] \<or> applied = Resolved))
      | StopScan \<Rightarrow> isScanning (scanState s) \<and> loading s
      | StopCt stopped \<Rightarrow> isScanning (scanState s) \<and> (loading s \<or> stopped \<noteq> Resolved)
      | ScanComplete \<Rightarrow> False
      | _ \<Rightarrow> isScanning (scanState s))"
  by (cases e) (auto simp: handler_defs split: outcome.split)

lemma run_append: "run s (es @ fs) = run (run s es) fs"
  by (induction es arbitrary: s) simp_all

lemma quiet_run:
  "\<not> list_ex isEndPlanning es \<Longrightarrow> \<not> loading s \<Longrightarrow> \<not> planningCompleted s \<Longrightarrow>
   \<not> loading (run s es) \<and> \<not> planningCompleted (run s es)"
proof (induction es arbitrary: s)
  case Nil
  then show ?case by simp
next
  case (Cons e es)
  from Cons.prems have "\<not> loading (step e s)" by (simp add: loading_step)
  moreover from Cons.prems have "\<not> planningCompleted (step e s)"
    by (auto simp: planningCompleted_step split: event.splits)
  ultimately show ?case using Cons.IH Cons.prems(1) by simp
qed

lemma scanning_needs_completed_run:
  "\<not> (isScanning (scanState s) \<and> \<not> planningCompleted s) \<Longrightarrow>
   \<not> (isScanning (scanState (run s es)) \<and> \<not> planningCompleted (run s es))"
proof (induction es arbitrary: s)
  case Nil
  then show ?case by simp
next
  case (Cons e es)
  have "\<not> (isScanning (scanState (step e s)) \<and> \<not> planningCompleted (step e s))"
    using Cons.prems
    by (auto simp: isScanning_step planningCompleted_step canStartScan_def split: event.splits)
  then show ?case using Cons.IH by simp
qed

text \<open>
  C1. From the initial state, \<open>canStartScan\<close> is false after any events that
  include no End Planning click. After such events, one End Planning click
  makes it true exactly when planning is active, the save succeeds and the
  snapshot has both z-pixel bounds. It is false in every state that is scanning,
  and a scan start that goes through leaves it false.
\<close>

theorem canStartScan_lifecycle:
  assumes "\<not> list_ex isEndPlanning es"
  shows "\<not> canStartScan (run init es)
       \<and> canStartScan (run init (es @ [EndPlanning saved now r]))
           = (isPlanningActive (run init es) \<and> saved = Resolved
              \<and> wellFormed (planningData (run init es)))
       \<and> (isScanning (scanState s) \<longrightarrow> \<not> canStartScan s)
       \<and> (canStartScan s \<and> \<not> loading s
            \<longrightarrow> isScanning (scanState (step (StartScan Resolved) s))
              \<and> \<not> canStartScan (step (StartScan Resolved) s))"
proof -
  have i: "\<not> loading init" "\<not> planningCompleted init" "\<not> isScanning (scanState init)"
    by (simp_all add: init_def idleScan_def)
  have q: "\<not> loading (run init es)" "\<not> planningCompleted (run init es)"
    using quiet_run [OF assms i(1,2)] by simp_all
  have sc: "\<not> isScanning (scanState (run init es))"
    using scanning_needs_completed_run [of init es] i q by simp
  have a: "\<not> canStartScan (run init es)"
    using q by (simp add: canStartScan_def)
  have b: "canStartScan (run init (es @ [EndPlanning saved now r]))
           = (isPlanningActive (run init es) \<and> saved = Resolved
              \<and> wellFormed (planningData (run init es)))"
    using q sc
    by (simp add: run_append canStartScan_def planningCompleted_step isScanning_step
          del: step.simps)
  have c: "isScanning (scanState s) \<longrightarrow> \<not> canStartScan s"
    by (simp add: canStartScan_def)
  have d: "canStartScan s \<and> \<not> loading s
            \<longrightarrow> isScanning (scanState (step (StartScan Resolved) s))
              \<and> \<not> canStartScan (step (StartScan Resolved) s)"
    by (simp add: canStartScan_def isScanning_step del: step.simps)
  from a b c d show ?thesis by blast
qed


theorem canStartScan_lifecycle_witness:
  "\<not> list_ex isEndPlanning [CaseChange ''A'', ScoutScan 1 (Loaded 800 1000), StartPlanning]
   \<and> \<not> canStartScan
         (run init [CaseChange ''A'', ScoutScan 1 (Loaded 800 1000), StartPlanning])
   \<and> canStartScan
        (run init ([CaseChange ''A'', ScoutScan 1 (Loaded 800 1000), StartPlanning]
                   @ [EndPlanning Resolved 2 (Loaded 800 1000)]))
   \<and> isScanning (scanState scanningA) \<and> \<not> canStartScan scanningA
   \<and> canStartScan plannedA \<and> \<not> loading plannedA
   \<and> isScanning (scanState (step (StartScan Resolved) plannedA))
   \<and> \<not> canStartScan (step (StartScan Resolved) plannedA)"
  using
    canStartScan_lifecycle
      [of "[CaseChange ''A'', ScoutScan 1 (Loaded 800 1000), StartPlanning]"
          Resolved 2 "Loaded 800 1000" scanningA]
    canStartScan_lifecycle
      [of "[CaseChange ''A'', ScoutScan 1 (Loaded 800 1000), StartPlanning]"
          Resolved 2 "Loaded 800 1000" plannedA]
  unfolding planningA_def [symmetric]
  by (simp add: planningA_eval plannedA_eval scanningA_eval wellFormed_def canStartScan_def
        del: step.simps)

text \<open>
  C2. Every run of \<open>handleEndPlanning\<close> leaves \<open>isPlanningActive\<close> false, and
  it leaves \<open>planningCompleted\<close> true only if it was true before or the save
  succeeded on a snapshot with both z-pixel bounds. An End Planning click whose
  save is rejected leaves \<open>planningCompleted\<close> as it was and Start Planning
  available again. A \<open>handleStartScan\<close> whose \<open>applyReconstruction\<close> call is
  rejected (the call is made when a case is selected) leaves the scan state as it
  was, and Start Scan stays available.
\<close>

theorem collaborator_failure_keeps_gate:
  "\<not> isPlanningActive (handleEndPlanning saved now s)
   \<and> planningCompleted (handleEndPlanning saved now s)
       = (planningCompleted s \<or> (saved = Resolved \<and> wellFormed (planningData s)))
   \<and> (canEndPlanning s \<and> \<not> loading s \<longrightarrow>
         \<not> isPlanningActive (step (EndPlanning (Rejected msg) now r) s)
       \<and> planningCompleted (step (EndPlanning (Rejected msg) now r) s) = planningCompleted s
       \<and> canStartPlanning (step (EndPlanning (Rejected msg) now r) s)
           = (scoutCompleted s \<and> \<not> planningCompleted s)
       \<and> \<not> loading (step (EndPlanning (Rejected msg) now r) s))
   \<and> (caseId s \<noteq> [] \<longrightarrow>
         scanState (handleStartScan (Rejected msg) s) = scanState s
       \<and> planningCompleted (handleStartScan (Rejected msg) s) = planningCompleted s)
   \<and> (canStartScan s \<and> \<not> loading s \<and> caseId s \<noteq> [] \<longrightarrow>
         scanState (step (StartScan (Rejected msg)) s) = scanState s
       \<and> canStartScan (step (StartScan (Rejected msg)) s)
       \<and> \<not> loading (step (StartScan (Rejected msg)) s))"
proof -
  have a: "\<not> isPlanningActive (handleEndPlanning saved now s)"
    by (simp add: handleEndPlanning_def handlePlanningEnd_def)
  have b: "planningCompleted (handleEndPlanning saved now s)
       = (planningCompleted s \<or> (saved = Resolved \<and> wellFormed (planningData s)))"
    by (simp add: handleEndPlanning_def handlePlanningEnd_def split: outcome.split)
  have c: "canEndPlanning s \<and> \<not> loading s \<longrightarrow>
         \<not> isPlanningActive (step (EndPlanning (Rejected msg) now r) s)
       \<and> planningCompleted (step (EndPlanning (Rejected msg) now r) s) = planningCompleted s
       \<and> canStartPlanning (step (EndPlanning (Rejected msg) now r) s)
           = (scoutCompleted s \<and> \<not> planningCompleted s)
       \<and> \<not> loading (step (EndPlanning (Rejected msg) now r) s)"
    by (simp add: canStartPlanning_def canEndPlanning_def isPlanningActive_step
          planningCompleted_step scoutCompleted_step loading_step del: step.simps)
  have d: "caseId s \<noteq> [] \<longrightarrow>
         scanState (handleStartScan (Rejected msg) s) = scanState s
       \<and> planningCompleted (handleStartScan (Rejected msg) s) = planningCompleted s"
    by (simp add: handleStartScan_def)
  have e: "canStartScan s \<and> \<not> loading s \<and> caseId s \<noteq> [] \<longrightarrow>
         scanState (step (StartScan (Rejected msg)) s) = scanState s
       \<and> canStartScan (step (StartScan (Rejected msg)) s)
       \<and> \<not> loading (step (StartScan (Rejected msg)) s)"
    by (simp add: canStartScan_def handleStartScan_def)
  from a b c d e show ?thesis by blast
qed

theorem collaborator_failure_keeps_gate_witness:
  "\<not> isPlanningActive (handleEndPlanning (Rejected ''offline'') 2 planningA)
   \<and> \<not> planningCompleted (handleEndPlanning (Rejected ''offline'') 2 planningA)
   \<and> canEndPlanning planningA \<and> \<not> loading planningA
   \<and> \<not> isPlanningActive (step (EndPlanning (Rejected ''offline'') 2 NoResponse) planningA)
   \<and> \<not> planningCompleted (step (EndPlanning (Rejected ''offline'') 2 NoResponse) planningA)
   \<and> canStartPlanning (step (EndPlanning (Rejected ''offline'') 2 NoResponse) planningA)
   \<and> caseId plannedA \<noteq> [] \<and> canStartScan plannedA \<and> \<not> loading plannedA
   \<and> scanState (handleStartScan (Rejected ''offline'') plannedA) = scanState plannedA
   \<and> scanState (step (StartScan (Rejected ''offline'')) plannedA) = scanState plannedA
   \<and> canStartScan (step (StartScan (Rejected ''offline'')) plannedA)"
  using
    collaborator_failure_keeps_gate [of "Rejected ''offline''" 2 planningA "''offline''" NoResponse]
    collaborator_failure_keeps_gate [of "Rejected ''offline''" 2 plannedA "''offline''" NoResponse]
  by (simp add: planningA_eval plannedA_eval canEndPlanning_def canStartScan_def wellFormed_def
        del: step.simps)

section \<open>Case change\<close>

lemma refreshEffect_after_case_change:
  "refreshEffect tok cid r (caseIdEffects cid' (handleCaseChange c s))
     = caseIdEffects cid' (handleCaseChange c s)"
  by (simp add: refreshEffect_def caseIdEffects_def handleCaseChange_def)

lemma case_change_resets_workflow:
  "c \<noteq> caseId s \<Longrightarrow>
   \<not> isPlanningActive (step (CaseChange c) s) \<and> \<not> scoutCompleted (step (CaseChange c) s)
   \<and> \<not> planningCompleted (step (CaseChange c) s)
   \<and> planningData (step (CaseChange c) s) = emptyPlanningData
   \<and> (c \<noteq> [] \<longrightarrow> planning (step (CaseChange c) s) = planning s
                  \<and> scoutSize (step (CaseChange c) s) = scoutSize s)
   \<and> (c = [] \<longrightarrow> planning (step (CaseChange c) s) = initialPlanning
                  \<and> scoutSize (step (CaseChange c) s) = None)"
  by (auto simp: handleCaseChange_def caseIdEffects_def)

text \<open>
  C3, evaluated where the code departs from it. Case A has planning active and
  its start line dragged to 300. The change to case B clears the layout's facts
  and its planning data, but the viewer keeps the lines and FOV box of case A
  and the size of its scout: its effect on the case identifier resets them only
  when the new identifier is empty. If the scout for B then fails to load,
  planning for B starts on the geometry of A.
\<close>

theorem case_change_keeps_viewer_geometry:
  "caseId (step (CaseChange ''B'') adjustedA) = ''B''
   \<and> \<not> isPlanningActive (step (CaseChange ''B'') adjustedA)
   \<and> \<not> scoutCompleted (step (CaseChange ''B'') adjustedA)
   \<and> \<not> planningCompleted (step (CaseChange ''B'') adjustedA)
   \<and> planningData (step (CaseChange ''B'') adjustedA) = emptyPlanningData
   \<and> scoutSize (step (CaseChange ''B'') adjustedA) = Some \<lparr>width = 800, height = 1000\<rparr>
   \<and> planning (step (CaseChange ''B'') adjustedA)
       = \<lparr>startY = 300, endY = 800,
          fov = \<lparr>x_min = 160, x_max = 640, y_min = 300, y_max = 800\<rparr>\<rparr>
   \<and> isPlanningActive
       (run adjustedA [CaseChange ''B'', ScoutScan 3 NoResponse, StartPlanning])
   \<and> planning (run adjustedA [CaseChange ''B'', ScoutScan 3 NoResponse, StartPlanning])
       = \<lparr>startY = 300, endY = 800,
          fov = \<lparr>x_min = 160, x_max = 640, y_min = 300, y_max = 800\<rparr>\<rparr>"
  by (simp add: adjustedA_eval handleCaseChange_def caseIdEffects_def idleScan_def
        emptyPlanningData_def handleScoutScan_def refreshEffect_def loadScout_def
        canStartPlanning_def handlePlanningStart_def)

section \<open>Scout acquisition\<close>

lemma Math_round_near: "\<bar>Math_round x - x\<bar> \<le> 1 / 2"
  unfolding Math_round_def by linarith

text \<open>
  C10 (as amended). A Scout Scan click that goes through (the button is enabled, a case is
  selected, the refresh token changes to a positive value) and whose image loads
  sets the lines to 20% and 80% of the image height and the FOV margin to 20% of
  the image width, each rounded to the nearest pixel, whatever the geometry was
  before, and leaves \<open>isPlanningActive\<close> and \<open>planningCompleted\<close> as they were.
\<close>

theorem scout_scan_reinitializes:
  assumes "\<not> loading s" and "\<not> isScanning (scanState s)" and "caseId s \<noteq> []"
    and "now \<noteq> scoutRefreshToken s" and "0 < now"
  shows "planning (step (ScoutScan now (Loaded cols rows)) s)
           = \<lparr>startY = Math_round (rows * 0.2), endY = Math_round (rows * 0.8),
              fov = \<lparr>x_min = Math_round (cols * 0.2), x_max = cols - Math_round (cols * 0.2),
                     y_min = Math_round (rows * 0.2), y_max = Math_round (rows * 0.8)\<rparr>\<rparr>
       \<and> \<bar>Math_round (rows * 0.2) - rows * 0.2\<bar> \<le> 1 / 2
       \<and> \<bar>Math_round (rows * 0.8) - rows * 0.8\<bar> \<le> 1 / 2
       \<and> \<bar>Math_round (cols * 0.2) - cols * 0.2\<bar> \<le> 1 / 2
       \<and> isPlanningActive (step (ScoutScan now (Loaded cols rows)) s) = isPlanningActive s
       \<and> planningCompleted (step (ScoutScan now (Loaded cols rows)) s) = planningCompleted s"
proof -
  have "planning (step (ScoutScan now (Loaded cols rows)) s) = defaultPlanning cols rows"
    using assms
    by (simp add: handleScoutScan_def refreshEffect_def planning_loadScout_Loaded)
  moreover have "isPlanningActive (step (ScoutScan now (Loaded cols rows)) s) = isPlanningActive s"
    by (simp add: isPlanningActive_step del: step.simps)
  moreover have "planningCompleted (step (ScoutScan now (Loaded cols rows)) s) = planningCompleted s"
    by (simp add: planningCompleted_step del: step.simps)
  ultimately show ?thesis
    using Math_round_near [of "rows * 0.2"] Math_round_near [of "rows * 0.8"]
      Math_round_near [of "cols * 0.2"]
    by (simp add: defaultPlanning_def Let_def)
qed

theorem scout_scan_reinitializes_witness:
  "\<not> loading adjustedA \<and> \<not> isScanning (scanState adjustedA) \<and> caseId adjustedA \<noteq> []
   \<and> 7 \<noteq> scoutRefreshToken adjustedA \<and> (0::nat) < 7
   \<and> startY (planning adjustedA) = 300
   \<and> planning (step (ScoutScan 7 (Loaded 800 1000)) adjustedA)
       = \<lparr>startY = 200, endY = 800,
          fov = \<lparr>x_min = 160, x_max = 640, y_min = 200, y_max = 800\<rparr>\<rparr>
   \<and> isPlanningActive adjustedA
   \<and> isPlanningActive (step (ScoutScan 7 (Loaded 800 1000)) adjustedA)
   \<and> \<not> planningCompleted (step (ScoutScan 7 (Loaded 800 1000)) adjustedA)"
  using scout_scan_reinitializes [of adjustedA 7 800 1000]
  by (simp add: adjustedA_eval Math_round_def del: step.simps)

text \<open>C10 as stated fails in four ways. A scout that fails to load leaves the
  dragged geometry (start line 300) in place, though \<open>scoutCompleted\<close> is set.
  A click that reads the same \<open>Date.now()\<close> as the token already held reloads
  nothing. With no case selected nothing is loaded and the initial geometry
  stays. A scout of 512 by 333 pixels gets the lines 67 and 266, not 66.6 and
  266.4.\<close>

theorem scout_scan_reinitializes_counterexample:
  "planning (step (ScoutScan 7 NoResponse) adjustedA)
     = \<lparr>startY = 300, endY = 800,
        fov = \<lparr>x_min = 160, x_max = 640, y_min = 300, y_max = 800\<rparr>\<rparr>
   \<and> scoutCompleted (step (ScoutScan 7 NoResponse) adjustedA)
   \<and> planning (step (ScoutScan 1 (Loaded 800 1000)) adjustedA)
     = \<lparr>startY = 300, endY = 800,
        fov = \<lparr>x_min = 160, x_max = 640, y_min = 300, y_max = 800\<rparr>\<rparr>
   \<and> planning (step (ScoutScan 7 (Loaded 800 1000)) init)
     = \<lparr>startY = 100, endY = 400,
        fov = \<lparr>x_min = 100, x_max = 300, y_min = 100, y_max = 300\<rparr>\<rparr>
   \<and> startY (planning (step (ScoutScan 7 (Loaded 512 333)) adjustedA)) = 67
   \<and> endY (planning (step (ScoutScan 7 (Loaded 512 333)) adjustedA)) = 266
   \<and> (67::real) \<noteq> 333 * 0.2 \<and> (266::real) \<noteq> 333 * 0.8"
  by (simp add: adjustedA_eval init_def idleScan_def initialPlanning_def initialFov_def
        handleScoutScan_def refreshEffect_def loadScout_def notifyPlanningData_def
        defaultPlanning_def Math_round_def)


section \<open>Start Planning gate over traces\<close>

lemma canStartPlanning_step:
  "canStartPlanning (step e s) \<Longrightarrow>
   canStartPlanning s
   \<or> (isEndPlanning e \<and> isPlanningActive s \<and> \<not> planningCompleted (step e s))
   \<or> (isScoutScan e \<and> \<not> scoutCompleted s)"
  unfolding canStartPlanning_def scoutCompleted_step isPlanningActive_step planningCompleted_step
  by (cases e) (auto simp: canStartPlanning_def)

lemma scoutCompleted_lost: "scoutCompleted s \<Longrightarrow> \<not> scoutCompleted (step e s) \<Longrightarrow> isCaseChange e"
  unfolding scoutCompleted_step by (cases e) auto

lemma canStartPlanning_run:
  "canStartPlanning (run s es) \<Longrightarrow>
   canStartPlanning s \<or> endedUncommitted s es \<or> caseThenScout es
   \<or> (\<not> scoutCompleted s \<and> list_ex isScoutScan es)"
proof (induction es arbitrary: s)
  case Nil
  then show ?case by simp
next
  case (Cons e es)
  from Cons.prems have "canStartPlanning (run (step e s) es)" by simp
  from Cons.IH [OF this]
  consider (now) "canStartPlanning (step e s)"
    | (ended) "endedUncommitted (step e s) es"
    | (cs) "caseThenScout es"
    | (scout) "\<not> scoutCompleted (step e s)" "list_ex isScoutScan es"
    by blast
  then show ?case
  proof cases
    case now
    from canStartPlanning_step [OF this] show ?thesis by auto
  next
    case ended
    then show ?thesis by simp
  next
    case cs
    then show ?thesis by simp
  next
    case scout
    show ?thesis
    proof (cases "scoutCompleted s")
      case True
      from scoutCompleted_lost [OF True scout(1)] have "isCaseChange e" .
      with scout(2) show ?thesis by simp
    next
      case False
      with scout(2) show ?thesis by simp
    qed
  qed
qed

lemma planningCompleted_run:
  "planningCompleted s \<Longrightarrow> \<not> list_ex isCaseChange es \<Longrightarrow> planningCompleted (run s es)"
proof (induction es arbitrary: s)
  case Nil
  then show ?case by simp
next
  case (Cons e es)
  from Cons.prems have "planningCompleted (step e s)"
    unfolding planningCompleted_step by (cases e) auto
  with Cons.IH Cons.prems(2) show ?case by simp
qed

text \<open>
  C7 (as amended). \<open>canStartPlanning\<close> is false right after a Start Planning
  click that goes through. After any further events it is true again only if
  an End Planning click, made while planning was active, left
  \<open>planningCompleted\<close> false (the save was rejected, or skipped for a snapshot
  without both z-pixel bounds), or a case change was followed by a Scout Scan
  click. Once planning is completed it stays false as long as no case change
  occurs.
\<close>

theorem canStartPlanning_after_start:
  assumes "canStartPlanning s" and "\<not> loading s"
  shows "\<not> canStartPlanning (step StartPlanning s)
       \<and> (canStartPlanning (run (step StartPlanning s) es)
            \<longrightarrow> endedUncommitted (step StartPlanning s) es \<or> caseThenScout es)
       \<and> (planningCompleted t \<and> \<not> list_ex isCaseChange fs
            \<longrightarrow> \<not> canStartPlanning (run t fs))"
proof -
  have a: "isPlanningActive (step StartPlanning s)" "scoutCompleted (step StartPlanning s)"
    using assms by (simp_all add: canStartPlanning_def handlePlanningStart_def)
  then have b: "\<not> canStartPlanning (step StartPlanning s)"
    by (simp add: canStartPlanning_def del: step.simps)
  have c: "canStartPlanning (run (step StartPlanning s) es)
            \<longrightarrow> endedUncommitted (step StartPlanning s) es \<or> caseThenScout es"
    using canStartPlanning_run [of "step StartPlanning s" es] a b by blast
  have d: "planningCompleted t \<and> \<not> list_ex isCaseChange fs
            \<longrightarrow> \<not> canStartPlanning (run t fs)"
    using planningCompleted_run [of t fs] by (auto simp: canStartPlanning_def)
  from b c d show ?thesis by blast
qed


theorem canStartPlanning_after_start_witness:
  "canStartPlanning scoutedA \<and> \<not> loading scoutedA
   \<and> \<not> canStartPlanning (step StartPlanning scoutedA)
   \<and> canStartPlanning
        (run (step StartPlanning scoutedA) [EndPlanning (Rejected ''offline'') 2 NoResponse])
   \<and> endedUncommitted (step StartPlanning scoutedA)
        [EndPlanning (Rejected ''offline'') 2 NoResponse]
   \<and> planningCompleted plannedA \<and> \<not> list_ex isCaseChange [ScoutScan 3 (Loaded 800 1000)]
   \<and> \<not> canStartPlanning (run plannedA [ScoutScan 3 (Loaded 800 1000)])"
proof -
  have r: "run planningA [EndPlanning (Rejected ''offline'') 2 NoResponse] = rejectedA"
    by (simp add: rejectedA_def del: step.simps)
  have e: "endedUncommitted planningA [EndPlanning (Rejected ''offline'') 2 NoResponse]"
    by (simp add: rejectedA_def [symmetric] del: step.simps)
       (simp add: rejectedA_eval planningA_eval)
  have p: "canStartPlanning scoutedA" "\<not> loading scoutedA" "\<not> canStartPlanning planningA"
    "canStartPlanning rejectedA" "planningCompleted plannedA"
    by (simp_all add: canStartPlanning_def scoutedA_eval planningA_eval rejectedA_eval
          plannedA_eval)
  show ?thesis
    using canStartPlanning_after_start
      [of scoutedA "[EndPlanning (Rejected ''offline'') 2 NoResponse]" plannedA
          "[ScoutScan 3 (Loaded 800 1000)]"]
    unfolding start_scoutedA r
    using p e by simp
qed

text \<open>C7 as stated fails: after scout, Start Planning and an End Planning
  whose save is rejected, \<open>canStartPlanning\<close> is true again with nothing
  committed and no case change.\<close>

theorem canStartPlanning_after_start_counterexample:
  "canStartPlanning
     (run init [CaseChange ''A'', ScoutScan 1 (Loaded 800 1000), StartPlanning,
                EndPlanning (Rejected ''offline'') 2 NoResponse])
   \<and> \<not> planningCompleted
         (run init [CaseChange ''A'', ScoutScan 1 (Loaded 800 1000), StartPlanning,
                    EndPlanning (Rejected ''offline'') 2 NoResponse])
   \<and> \<not> list_ex isCaseChange [EndPlanning (Rejected ''offline'') 2 NoResponse]
   \<and> \<not> canStartPlanning
         (run init [CaseChange ''A'', ScoutScan 1 (Loaded 800 1000), StartPlanning])"
proof -
  have "run init [CaseChange ''A'', ScoutScan 1 (Loaded 800 1000), StartPlanning,
                EndPlanning (Rejected ''offline'') 2 NoResponse] = rejectedA"
    by (simp add: planningA_def rejectedA_def del: step.simps)
  moreover have "run init [CaseChange ''A'', ScoutScan 1 (Loaded 800 1000), StartPlanning]
                   = planningA"
    by (simp add: planningA_def)
  moreover have "canStartPlanning rejectedA" "\<not> planningCompleted rejectedA"
    "\<not> canStartPlanning planningA"
    by (simp_all add: canStartPlanning_def rejectedA_eval planningA_eval)
  ultimately show ?thesis by (simp del: run.simps step.simps)
qed

section \<open>Drag candidates\<close>

text \<open>
  C9 (as amended). In a pointer-move no handle takes its new value from the
  live value of the quantity it drags. The start and end lines take the value
  at pointer-down plus the scaled vertical displacement, clamped against the
  other line and the frame. The four FOV edge handles do not use the
  pointer-down snapshot at all: the edge goes to the pointer's absolute
  position in image pixels, clamped against the opposite edge and the frame
  (a top or bottom edge takes its line with it). The FOV body handle uses only
  the width and height of the box at pointer-down: the box keeps them and is
  centred on the pointer's absolute position, clamped to the frame.
\<close>

theorem drag_candidate_source:
  assumes "dragging s = Some d" and "scoutSize s = Some sz"
  shows "planning (handleMouseMove e rect (s\<lparr>planning := overwriteDragged d q (planning s)\<rparr>))
           = planning (handleMouseMove e rect s)
       \<and> (d = Start \<and> 0 \<le> c \<and> c \<le> endY (planning s) - 20
            \<and> c = anchorPlusDelta (startY (dragStartRef s)) (y (dragStartRef s)) (clientY e)
                    (height sz / rheight rect)
            \<longrightarrow> startY (planning (handleMouseMove e rect s)) = c)
       \<and> (d = End \<and> startY (planning s) + 20 \<le> c \<and> c \<le> height sz
            \<and> c = anchorPlusDelta (endY (dragStartRef s)) (y (dragStartRef s)) (clientY e)
                    (height sz / rheight rect)
            \<longrightarrow> endY (planning (handleMouseMove e rect s)) = c)
       \<and> (d = FovLeft \<or> d = FovRight \<or> d = FovTop \<or> d = FovBottom
            \<longrightarrow> planning (handleMouseMove e rect (s\<lparr>dragStartRef := a\<rparr>))
                  = planning (handleMouseMove e rect s))
       \<and> (d = Fov
            \<and> x_max (fov a) - x_min (fov a)
                = x_max (fov (dragStartRef s)) - x_min (fov (dragStartRef s))
            \<and> y_max (fov a) - y_min (fov a)
                = y_max (fov (dragStartRef s)) - y_min (fov (dragStartRef s))
            \<longrightarrow> planning (handleMouseMove e rect (s\<lparr>dragStartRef := a\<rparr>))
                  = planning (handleMouseMove e rect s))
       \<and> (d = Start \<longrightarrow>
            startY (planning (handleMouseMove e rect s))
              = max 0 (min (anchorPlusDelta (startY (dragStartRef s)) (y (dragStartRef s))
                              (clientY e) (height sz / rheight rect))
                           (endY (planning s) - 20)))
       \<and> (d = End \<longrightarrow>
            endY (planning (handleMouseMove e rect s))
              = min (height sz)
                  (max (anchorPlusDelta (endY (dragStartRef s)) (y (dragStartRef s))
                          (clientY e) (height sz / rheight rect))
                       (startY (planning s) + 20)))
       \<and> (d = FovLeft \<longrightarrow>
            x_min (fov (planning (handleMouseMove e rect s)))
              = max 0 (min (pointerX e rect sz) (x_max (fov (planning s)) - 20)))
       \<and> (d = FovRight \<longrightarrow>
            x_max (fov (planning (handleMouseMove e rect s)))
              = min (width sz) (max (pointerX e rect sz) (x_min (fov (planning s)) + 20)))
       \<and> (d = FovTop \<longrightarrow>
            y_min (fov (planning (handleMouseMove e rect s)))
              = max 0 (min (pointerY e rect sz) (y_max (fov (planning s)) - 20))
          \<and> startY (planning (handleMouseMove e rect s))
              = y_min (fov (planning (handleMouseMove e rect s))))
       \<and> (d = FovBottom \<longrightarrow>
            y_max (fov (planning (handleMouseMove e rect s)))
              = min (height sz) (max (pointerY e rect sz) (y_min (fov (planning s)) + 20))
          \<and> endY (planning (handleMouseMove e rect s))
              = y_max (fov (planning (handleMouseMove e rect s))))
       \<and> (d = Fov \<longrightarrow>
            x_max (fov (planning (handleMouseMove e rect s)))
              - x_min (fov (planning (handleMouseMove e rect s)))
              = x_max (fov (dragStartRef s)) - x_min (fov (dragStartRef s))
          \<and> y_max (fov (planning (handleMouseMove e rect s)))
              - y_min (fov (planning (handleMouseMove e rect s)))
              = y_max (fov (dragStartRef s)) - y_min (fov (dragStartRef s))
          \<and> x_min (fov (planning (handleMouseMove e rect s)))
              = max 0 (min (pointerX e rect sz
                              - (x_max (fov (dragStartRef s)) - x_min (fov (dragStartRef s))) / 2)
                           (width sz
                              - (x_max (fov (dragStartRef s)) - x_min (fov (dragStartRef s)))))
          \<and> y_min (fov (planning (handleMouseMove e rect s)))
              = max 0 (min (pointerY e rect sz
                              - (y_max (fov (dragStartRef s)) - y_min (fov (dragStartRef s))) / 2)
                           (height sz
                              - (y_max (fov (dragStartRef s)) - y_min (fov (dragStartRef s))))))"
proof -
  note mv = planning_handleMouseMove [OF assms]
  have mv_live: "planning (handleMouseMove e rect (s\<lparr>planning := p\<rparr>))
      = movePlanning d (dragStartRef s) sz
          ((clientY e - y (dragStartRef s)) * (height sz / rheight rect))
          ((clientX e - rleft rect) * (width sz / rwidth rect))
          ((clientY e - rtop rect) * (height sz / rheight rect)) p" for p
    using assms by (simp add: planning_handleMouseMove)
  have mv_anchor: "planning (handleMouseMove e rect (s\<lparr>dragStartRef := a\<rparr>))
      = movePlanning d a sz
          ((clientY e - y a) * (height sz / rheight rect))
          ((clientX e - rleft rect) * (width sz / rwidth rect))
          ((clientY e - rtop rect) * (height sz / rheight rect)) (planning s)"
    using assms by (simp add: planning_handleMouseMove)
  have live:
    "planning (handleMouseMove e rect (s\<lparr>planning := overwriteDragged d q (planning s)\<rparr>))
       = planning (handleMouseMove e rect s)"
    unfolding mv mv_live
    by (cases d) (simp_all add: movePlanning_def overwriteDragged_def Let_def)
  have start: "d = Start \<and> 0 \<le> c \<and> c \<le> endY (planning s) - 20
            \<and> c = anchorPlusDelta (startY (dragStartRef s)) (y (dragStartRef s)) (clientY e)
                    (height sz / rheight rect)
            \<longrightarrow> startY (planning (handleMouseMove e rect s)) = c"
    unfolding mv by (simp add: movePlanning_def Let_def anchorPlusDelta_def)
  have "end": "d = End \<and> startY (planning s) + 20 \<le> c \<and> c \<le> height sz
            \<and> c = anchorPlusDelta (endY (dragStartRef s)) (y (dragStartRef s)) (clientY e)
                    (height sz / rheight rect)
            \<longrightarrow> endY (planning (handleMouseMove e rect s)) = c"
    unfolding mv by (simp add: movePlanning_def Let_def anchorPlusDelta_def)
  have edge: "d = FovLeft \<or> d = FovRight \<or> d = FovTop \<or> d = FovBottom
            \<longrightarrow> planning (handleMouseMove e rect (s\<lparr>dragStartRef := a\<rparr>))
                  = planning (handleMouseMove e rect s)"
    unfolding mv mv_anchor by (auto simp: movePlanning_def)
  have body: "d = Fov
            \<and> x_max (fov a) - x_min (fov a)
                = x_max (fov (dragStartRef s)) - x_min (fov (dragStartRef s))
            \<and> y_max (fov a) - y_min (fov a)
                = y_max (fov (dragStartRef s)) - y_min (fov (dragStartRef s))
            \<longrightarrow> planning (handleMouseMove e rect (s\<lparr>dragStartRef := a\<rparr>))
                  = planning (handleMouseMove e rect s)"
    unfolding mv mv_anchor by (simp add: movePlanning_def Let_def)
  have start_eq: "d = Start \<longrightarrow>
            startY (planning (handleMouseMove e rect s))
              = max 0 (min (anchorPlusDelta (startY (dragStartRef s)) (y (dragStartRef s))
                              (clientY e) (height sz / rheight rect))
                           (endY (planning s) - 20))"
    unfolding mv by (simp add: movePlanning_def Let_def anchorPlusDelta_def)
  have end_eq: "d = End \<longrightarrow>
            endY (planning (handleMouseMove e rect s))
              = min (height sz)
                  (max (anchorPlusDelta (endY (dragStartRef s)) (y (dragStartRef s))
                          (clientY e) (height sz / rheight rect))
                       (startY (planning s) + 20))"
    unfolding mv by (simp add: movePlanning_def Let_def anchorPlusDelta_def)
  have left_eq: "d = FovLeft \<longrightarrow>
            x_min (fov (planning (handleMouseMove e rect s)))
              = max 0 (min (pointerX e rect sz) (x_max (fov (planning s)) - 20))"
    unfolding mv by (simp add: movePlanning_def Let_def pointerX_def)
  have right_eq: "d = FovRight \<longrightarrow>
            x_max (fov (planning (handleMouseMove e rect s)))
              = min (width sz) (max (pointerX e rect sz) (x_min (fov (planning s)) + 20))"
    unfolding mv by (simp add: movePlanning_def Let_def pointerX_def)
  have top_eq: "d = FovTop \<longrightarrow>
            y_min (fov (planning (handleMouseMove e rect s)))
              = max 0 (min (pointerY e rect sz) (y_max (fov (planning s)) - 20))
          \<and> startY (planning (handleMouseMove e rect s))
              = y_min (fov (planning (handleMouseMove e rect s)))"
    unfolding mv by (simp add: movePlanning_def Let_def pointerY_def)
  have bottom_eq: "d = FovBottom \<longrightarrow>
            y_max (fov (planning (handleMouseMove e rect s)))
              = min (height sz) (max (pointerY e rect sz) (y_min (fov (planning s)) + 20))
          \<and> endY (planning (handleMouseMove e rect s))
              = y_max (fov (planning (handleMouseMove e rect s)))"
    unfolding mv by (simp add: movePlanning_def Let_def pointerY_def)
  have body_eq: "d = Fov \<longrightarrow>
            x_max (fov (planning (handleMouseMove e rect s)))
              - x_min (fov (planning (handleMouseMove e rect s)))
              = x_max (fov (dragStartRef s)) - x_min (fov (dragStartRef s))
          \<and> y_max (fov (planning (handleMouseMove e rect s)))
              - y_min (fov (planning (handleMouseMove e rect s)))
              = y_max (fov (dragStartRef s)) - y_min (fov (dragStartRef s))
          \<and> x_min (fov (planning (handleMouseMove e rect s)))
              = max 0 (min (pointerX e rect sz
                              - (x_max (fov (dragStartRef s)) - x_min (fov (dragStartRef s))) / 2)
                           (width sz
                              - (x_max (fov (dragStartRef s)) - x_min (fov (dragStartRef s)))))
          \<and> y_min (fov (planning (handleMouseMove e rect s)))
              = max 0 (min (pointerY e rect sz
                              - (y_max (fov (dragStartRef s)) - y_min (fov (dragStartRef s))) / 2)
                           (height sz
                              - (y_max (fov (dragStartRef s)) - y_min (fov (dragStartRef s)))))"
    unfolding mv by (simp add: movePlanning_def Let_def pointerX_def pointerY_def)
  from live start "end" edge body start_eq end_eq left_eq right_eq top_eq bottom_eq body_eq
  show ?thesis by blast
qed

theorem drag_candidate_source_witness:
  "dragging (handleMouseDown (pointer 5 200) Start planningA) = Some Start
   \<and> scoutSize (handleMouseDown (pointer 5 200) Start planningA) = Some \<lparr>width = 800, height = 1000\<rparr>
   \<and> planning (handleMouseMove (pointer 5 300) frame800x1000
        ((handleMouseDown (pointer 5 200) Start planningA)\<lparr>planning := overwriteDragged Start initialPlanning (planning (handleMouseDown (pointer 5 200) Start planningA))\<rparr>))
       = (planning (handleMouseMove (pointer 5 300) frame800x1000 (handleMouseDown (pointer 5 200) Start planningA)))
   \<and> (0::real) \<le> 300
   \<and> 300 \<le> endY (planning (handleMouseDown (pointer 5 200) Start planningA)) - 20
   \<and> 300 = anchorPlusDelta (startY (dragStartRef (handleMouseDown (pointer 5 200) Start planningA))) (y (dragStartRef (handleMouseDown (pointer 5 200) Start planningA)))
        (clientY (pointer 5 300)) (height \<lparr>width = 800, height = 1000\<rparr> / rheight frame800x1000)
   \<and> startY (planning (handleMouseMove (pointer 5 300) frame800x1000 (handleMouseDown (pointer 5 200) Start planningA))) = 300
   \<and> dragging (handleMouseDown (pointer 5 800) End planningA) = Some End
   \<and> scoutSize (handleMouseDown (pointer 5 800) End planningA) = Some \<lparr>width = 800, height = 1000\<rparr>
   \<and> planning (handleMouseMove (pointer 5 700) frame800x1000
        ((handleMouseDown (pointer 5 800) End planningA)\<lparr>planning := overwriteDragged End initialPlanning (planning (handleMouseDown (pointer 5 800) End planningA))\<rparr>))
       = (planning (handleMouseMove (pointer 5 700) frame800x1000 (handleMouseDown (pointer 5 800) End planningA)))
   \<and> startY (planning (handleMouseDown (pointer 5 800) End planningA)) + 20 \<le> 700
   \<and> 700 \<le> height \<lparr>width = 800, height = 1000\<rparr>
   \<and> 700 = anchorPlusDelta (endY (dragStartRef (handleMouseDown (pointer 5 800) End planningA))) (y (dragStartRef (handleMouseDown (pointer 5 800) End planningA)))
        (clientY (pointer 5 700)) (height \<lparr>width = 800, height = 1000\<rparr> / rheight frame800x1000)
   \<and> endY (planning (handleMouseMove (pointer 5 700) frame800x1000 (handleMouseDown (pointer 5 800) End planningA))) = 700
   \<and> dragging (handleMouseDown (pointer 160 500) FovLeft planningA) = Some FovLeft
   \<and> scoutSize (handleMouseDown (pointer 160 500) FovLeft planningA) = Some \<lparr>width = 800, height = 1000\<rparr>
   \<and> planning (handleMouseMove (pointer 170 500) frame800x1000
        ((handleMouseDown (pointer 160 500) FovLeft planningA)\<lparr>planning := overwriteDragged FovLeft initialPlanning (planning (handleMouseDown (pointer 160 500) FovLeft planningA))\<rparr>))
       = (planning (handleMouseMove (pointer 170 500) frame800x1000 (handleMouseDown (pointer 160 500) FovLeft planningA)))
   \<and> planning (handleMouseMove (pointer 170 500) frame800x1000
        ((handleMouseDown (pointer 160 500) FovLeft planningA)\<lparr>dragStartRef := \<lparr>startY = 0, endY = 0, fov = initialFov, y = 0\<rparr>\<rparr>))
       = (planning (handleMouseMove (pointer 170 500) frame800x1000 (handleMouseDown (pointer 160 500) FovLeft planningA)))
   \<and> pointerX (pointer 170 500) frame800x1000 \<lparr>width = 800, height = 1000\<rparr> = 170
   \<and> x_min (fov (planning (handleMouseMove (pointer 170 500) frame800x1000 (handleMouseDown (pointer 160 500) FovLeft planningA)))) = 170
   \<and> dragging (handleMouseDown (pointer 640 500) FovRight planningA) = Some FovRight
   \<and> scoutSize (handleMouseDown (pointer 640 500) FovRight planningA) = Some \<lparr>width = 800, height = 1000\<rparr>
   \<and> planning (handleMouseMove (pointer 700 500) frame800x1000
        ((handleMouseDown (pointer 640 500) FovRight planningA)\<lparr>planning := overwriteDragged FovRight initialPlanning (planning (handleMouseDown (pointer 640 500) FovRight planningA))\<rparr>))
       = (planning (handleMouseMove (pointer 700 500) frame800x1000 (handleMouseDown (pointer 640 500) FovRight planningA)))
   \<and> planning (handleMouseMove (pointer 700 500) frame800x1000
        ((handleMouseDown (pointer 640 500) FovRight planningA)\<lparr>dragStartRef := \<lparr>startY = 0, endY = 0, fov = initialFov, y = 0\<rparr>\<rparr>))
       = (planning (handleMouseMove (pointer 700 500) frame800x1000 (handleMouseDown (pointer 640 500) FovRight planningA)))
   \<and> x_max (fov (planning (handleMouseMove (pointer 700 500) frame800x1000 (handleMouseDown (pointer 640 500) FovRight planningA)))) = 700
   \<and> dragging (handleMouseDown (pointer 400 200) FovTop planningA) = Some FovTop
   \<and> scoutSize (handleMouseDown (pointer 400 200) FovTop planningA) = Some \<lparr>width = 800, height = 1000\<rparr>
   \<and> planning (handleMouseMove (pointer 400 250) frame800x1000
        ((handleMouseDown (pointer 400 200) FovTop planningA)\<lparr>planning := overwriteDragged FovTop initialPlanning (planning (handleMouseDown (pointer 400 200) FovTop planningA))\<rparr>))
       = (planning (handleMouseMove (pointer 400 250) frame800x1000 (handleMouseDown (pointer 400 200) FovTop planningA)))
   \<and> planning (handleMouseMove (pointer 400 250) frame800x1000
        ((handleMouseDown (pointer 400 200) FovTop planningA)\<lparr>dragStartRef := \<lparr>startY = 0, endY = 0, fov = initialFov, y = 0\<rparr>\<rparr>))
       = (planning (handleMouseMove (pointer 400 250) frame800x1000 (handleMouseDown (pointer 400 200) FovTop planningA)))
   \<and> pointerY (pointer 400 250) frame800x1000 \<lparr>width = 800, height = 1000\<rparr> = 250
   \<and> y_min (fov (planning (handleMouseMove (pointer 400 250) frame800x1000 (handleMouseDown (pointer 400 200) FovTop planningA)))) = 250
   \<and> startY (planning (handleMouseMove (pointer 400 250) frame800x1000 (handleMouseDown (pointer 400 200) FovTop planningA))) = 250
   \<and> dragging (handleMouseDown (pointer 400 800) FovBottom planningA) = Some FovBottom
   \<and> scoutSize (handleMouseDown (pointer 400 800) FovBottom planningA) = Some \<lparr>width = 800, height = 1000\<rparr>
   \<and> planning (handleMouseMove (pointer 400 900) frame800x1000
        ((handleMouseDown (pointer 400 800) FovBottom planningA)\<lparr>planning := overwriteDragged FovBottom initialPlanning (planning (handleMouseDown (pointer 400 800) FovBottom planningA))\<rparr>))
       = (planning (handleMouseMove (pointer 400 900) frame800x1000 (handleMouseDown (pointer 400 800) FovBottom planningA)))
   \<and> planning (handleMouseMove (pointer 400 900) frame800x1000
        ((handleMouseDown (pointer 400 800) FovBottom planningA)\<lparr>dragStartRef := \<lparr>startY = 0, endY = 0, fov = initialFov, y = 0\<rparr>\<rparr>))
       = (planning (handleMouseMove (pointer 400 900) frame800x1000 (handleMouseDown (pointer 400 800) FovBottom planningA)))
   \<and> y_max (fov (planning (handleMouseMove (pointer 400 900) frame800x1000 (handleMouseDown (pointer 400 800) FovBottom planningA)))) = 900
   \<and> endY (planning (handleMouseMove (pointer 400 900) frame800x1000 (handleMouseDown (pointer 400 800) FovBottom planningA))) = 900
   \<and> dragging (handleMouseDown (pointer 300 300) Fov planningA) = Some Fov
   \<and> scoutSize (handleMouseDown (pointer 300 300) Fov planningA) = Some \<lparr>width = 800, height = 1000\<rparr>
   \<and> planning (handleMouseMove (pointer 310 300) frame800x1000
        ((handleMouseDown (pointer 300 300) Fov planningA)\<lparr>planning := overwriteDragged Fov initialPlanning (planning (handleMouseDown (pointer 300 300) Fov planningA))\<rparr>))
       = (planning (handleMouseMove (pointer 310 300) frame800x1000 (handleMouseDown (pointer 300 300) Fov planningA)))
   \<and> x_max (fov \<lparr>startY = 0, endY = 0, fov = \<lparr>x_min = 0, x_max = 480, y_min = 0, y_max = 600\<rparr>, y = 0\<rparr>) - x_min (fov \<lparr>startY = 0, endY = 0, fov = \<lparr>x_min = 0, x_max = 480, y_min = 0, y_max = 600\<rparr>, y = 0\<rparr>)
       = x_max (fov (dragStartRef (handleMouseDown (pointer 300 300) Fov planningA))) - x_min (fov (dragStartRef (handleMouseDown (pointer 300 300) Fov planningA)))
   \<and> y_max (fov \<lparr>startY = 0, endY = 0, fov = \<lparr>x_min = 0, x_max = 480, y_min = 0, y_max = 600\<rparr>, y = 0\<rparr>) - y_min (fov \<lparr>startY = 0, endY = 0, fov = \<lparr>x_min = 0, x_max = 480, y_min = 0, y_max = 600\<rparr>, y = 0\<rparr>)
       = y_max (fov (dragStartRef (handleMouseDown (pointer 300 300) Fov planningA))) - y_min (fov (dragStartRef (handleMouseDown (pointer 300 300) Fov planningA)))
   \<and> planning (handleMouseMove (pointer 310 300) frame800x1000
        ((handleMouseDown (pointer 300 300) Fov planningA)\<lparr>dragStartRef := \<lparr>startY = 0, endY = 0, fov = \<lparr>x_min = 0, x_max = 480, y_min = 0, y_max = 600\<rparr>, y = 0\<rparr>\<rparr>))
       = (planning (handleMouseMove (pointer 310 300) frame800x1000 (handleMouseDown (pointer 300 300) Fov planningA)))
   \<and> x_max (fov (planning (handleMouseMove (pointer 310 300) frame800x1000 (handleMouseDown (pointer 300 300) Fov planningA)))) - x_min (fov (planning (handleMouseMove (pointer 310 300) frame800x1000 (handleMouseDown (pointer 300 300) Fov planningA)))) = 480
   \<and> y_max (fov (planning (handleMouseMove (pointer 310 300) frame800x1000 (handleMouseDown (pointer 300 300) Fov planningA)))) - y_min (fov (planning (handleMouseMove (pointer 310 300) frame800x1000 (handleMouseDown (pointer 300 300) Fov planningA)))) = 600
   \<and> x_min (fov (planning (handleMouseMove (pointer 310 300) frame800x1000 (handleMouseDown (pointer 300 300) Fov planningA)))) = 70
   \<and> y_min (fov (planning (handleMouseMove (pointer 310 300) frame800x1000 (handleMouseDown (pointer 300 300) Fov planningA)))) = 0"
  using
    drag_candidate_source
      [of "handleMouseDown (pointer 5 200) Start planningA" Start
          "\<lparr>width = 800, height = 1000\<rparr>" "pointer 5 300" frame800x1000 initialPlanning 300
          "\<lparr>startY = 0, endY = 0, fov = initialFov, y = 0\<rparr>"]
    drag_candidate_source
      [of "handleMouseDown (pointer 5 800) End planningA" End
          "\<lparr>width = 800, height = 1000\<rparr>" "pointer 5 700" frame800x1000 initialPlanning 700
          "\<lparr>startY = 0, endY = 0, fov = initialFov, y = 0\<rparr>"]
    drag_candidate_source
      [of "handleMouseDown (pointer 160 500) FovLeft planningA" FovLeft
          "\<lparr>width = 800, height = 1000\<rparr>" "pointer 170 500" frame800x1000 initialPlanning 0
          "\<lparr>startY = 0, endY = 0, fov = initialFov, y = 0\<rparr>"]
    drag_candidate_source
      [of "handleMouseDown (pointer 640 500) FovRight planningA" FovRight
          "\<lparr>width = 800, height = 1000\<rparr>" "pointer 700 500" frame800x1000 initialPlanning 0
          "\<lparr>startY = 0, endY = 0, fov = initialFov, y = 0\<rparr>"]
    drag_candidate_source
      [of "handleMouseDown (pointer 400 200) FovTop planningA" FovTop
          "\<lparr>width = 800, height = 1000\<rparr>" "pointer 400 250" frame800x1000 initialPlanning 0
          "\<lparr>startY = 0, endY = 0, fov = initialFov, y = 0\<rparr>"]
    drag_candidate_source
      [of "handleMouseDown (pointer 400 800) FovBottom planningA" FovBottom
          "\<lparr>width = 800, height = 1000\<rparr>" "pointer 400 900" frame800x1000 initialPlanning 0
          "\<lparr>startY = 0, endY = 0, fov = initialFov, y = 0\<rparr>"]
    drag_candidate_source
      [of "handleMouseDown (pointer 300 300) Fov planningA" Fov
          "\<lparr>width = 800, height = 1000\<rparr>" "pointer 310 300" frame800x1000 initialPlanning 0
          "\<lparr>startY = 0, endY = 0, fov = \<lparr>x_min = 0, x_max = 480, y_min = 0, y_max = 600\<rparr>, y = 0\<rparr>"]
  by (simp add: down_planningA planningA_facts anchorPlusDelta_def pointerX_def pointerY_def
        pointer_def frame800x1000_def)

text \<open>C9 as stated fails for the FOV body: the box 160..640 by 200..800 is
  grabbed at (300, 300) and the pointer moves 10 pixels right. Snapshot plus
  displacement would give \<open>x_min = 170\<close>, \<open>y_min = 200\<close>; the code centres the
  box on the pointer and gives \<open>x_min = 70\<close>, \<open>y_min = 0\<close>.\<close>

theorem drag_candidate_source_counterexample:
  "x_min (fov (planning (dragTo Fov (pointer 300 300) (pointer 310 300) frame800x1000 planningA)))
     = 70
   \<and> anchorPlusDelta (x_min (fov (planning planningA))) 300 310 (800 / rwidth frame800x1000) = 170
   \<and> y_min (fov (planning (dragTo Fov (pointer 300 300) (pointer 310 300) frame800x1000 planningA)))
     = 0
   \<and> anchorPlusDelta (y_min (fov (planning planningA))) 300 300 (1000 / rheight frame800x1000) = 200"
  by (simp add: planning_dragTo_A planningA_facts(3) movePlanning_def pointer_def
        frame800x1000_def anchorPlusDelta_def)

end
